theory Spec2Isabelle
  imports Main "HOL-Library.AList" "HOL-Library.Sublist"
begin


section \<open>JavaScript values as the script meets them\<close>

text \<open>
  The script \<^verbatim>\<open>frontend/app.js\<close> handles parsed JSON bodies, the two module variables
  \<^verbatim>\<open>token\<close> and \<^verbatim>\<open>userRole\<close>, and strings read from or written to the document.
  A value is \<^verbatim>\<open>undefined\<close>, \<^verbatim>\<open>null\<close>, a boolean, a number, a string, an array or an object.
  Numbers are integers here: entity ids, quantities and counts; fractions and NaN are
  outside the model. An object is the list of its own properties, looked up by key.
\<close>

datatype val =
    JUndefined
  | JNull
  | JBool bool
  | JNum int
  | JStr string
  | JArr "val list"
  | JObj "(string \<times> val) list"

text \<open>
  Decimal digits of a natural number, most significant first, and the string of an
  integer. This is the engine's conversion of a number to a string for the integers
  of magnitude below \<^verbatim>\<open>1e21\<close>, all digits written out. The numbers of the model are
  unbounded integers: an engine holds integers exactly up to \<^verbatim>\<open>2 ** 53\<close> and prints those
  from \<^verbatim>\<open>1e21\<close> on with an exponent, which the model does not follow.
\<close>

fun digits :: "nat \<Rightarrow> string" where
  "digits n = (if n < 10 then [''0123456789'' ! n]
               else digits (n div 10) @ [''0123456789'' ! (n mod 10)])"

declare digits.simps [simp del]

definition show_int :: "int \<Rightarrow> string" where
  "show_int i = (if i < 0 then ''-'' @ digits (nat (- i)) else digits (nat i))"

text \<open>
  \<^verbatim>\<open>String(v)\<close>, which template literals, \<^verbatim>\<open>new Error(v)\<close> and \<^verbatim>\<open>localStorage.setItem\<close>
  apply: an array joins the strings of its elements with commas, \<^verbatim>\<open>null\<close> and
  \<^verbatim>\<open>undefined\<close> elements giving the empty string; a plain object gives
  \<^verbatim>\<open>[object Object]\<close>.
\<close>

fun ToString :: "val \<Rightarrow> string"
  and array_join :: "val list \<Rightarrow> string" where
  "ToString JUndefined = ''undefined''"
| "ToString JNull = ''null''"
| "ToString (JBool b) = (if b then ''true'' else ''false'')"
| "ToString (JNum n) = show_int n"
| "ToString (JStr s) = s"
| "ToString (JArr xs) = array_join xs"
| "ToString (JObj kv) = ''[object Object]''"
| "array_join [] = ''''"
| "array_join (x # xs) =
     (case x of JUndefined \<Rightarrow> '''' | JNull \<Rightarrow> '''' | _ \<Rightarrow> ToString x)
     @ (if xs = [] then '''' else '','' @ array_join xs)"

text \<open>Truthiness, as \<^verbatim>\<open>||\<close>, \<^verbatim>\<open>!\<close> and \<^verbatim>\<open>if\<close> test it.\<close>

fun ToBoolean :: "val \<Rightarrow> bool" where
  "ToBoolean JUndefined = False"
| "ToBoolean JNull = False"
| "ToBoolean (JBool b) = b"
| "ToBoolean (JNum n) = (n \<noteq> 0)"
| "ToBoolean (JStr s) = (s \<noteq> '''')"
| "ToBoolean (JArr xs) = True"
| "ToBoolean (JObj kv) = True"

text \<open>
  Errors. \<^verbatim>\<open>Error m\<close> is \<^verbatim>\<open>new Error(m)\<close> thrown by the script; a \<^verbatim>\<open>Fault\<close> is an error
  the engine or the browser raises, whose message text is the engine's own and is
  supplied by the environment.
\<close>

datatype fault =
    NullAccess      \<comment> \<open>TypeError: property read on \<^verbatim>\<open>null\<close> or \<^verbatim>\<open>undefined\<close>\<close>
  | NotCallable     \<comment> \<open>TypeError: \<^verbatim>\<open>x.forEach\<close> is not a function\<close>
  | BadJson         \<comment> \<open>SyntaxError: \<^verbatim>\<open>response.json()\<close> on a body that is not JSON\<close>
  | NetworkFailure  \<comment> \<open>TypeError: \<^verbatim>\<open>fetch\<close> rejected, no response\<close>
  | InvalidTime     \<comment> \<open>RangeError: \<^verbatim>\<open>toISOString\<close> on an invalid date\<close>

datatype exn = Error string | Fault fault

text \<open>
  Reading a data property \<^verbatim>\<open>v.k\<close>. The script reads only \<^verbatim>\<open>length\<close> and the field names
  of the API's entities, none of which is inherited from a prototype, so a missing
  property is \<^verbatim>\<open>undefined\<close>.
\<close>

fun field :: "val \<Rightarrow> string \<Rightarrow> exn + val" where
  "field JUndefined k = Inl (Fault NullAccess)"
| "field JNull k = Inl (Fault NullAccess)"
| "field (JObj kv) k = Inr (case map_of kv k of None \<Rightarrow> JUndefined | Some v \<Rightarrow> v)"
| "field (JStr s) k = Inr (if k = ''length'' then JNum (int (length s)) else JUndefined)"
| "field (JArr xs) k = Inr (if k = ''length'' then JNum (int (length xs)) else JUndefined)"
| "field (JBool b) k = Inr JUndefined"
| "field (JNum n) k = Inr JUndefined"

section \<open>The network\<close>

text \<open>
  A call of \<^verbatim>\<open>fetch(url, options)\<close> is recorded as the pair of its arguments
  (\<open>http_method\<close> is the option \<^verbatim>\<open>method\<close>). A body is
  either the text \<^verbatim>\<open>JSON.stringify(v)\<close>, kept as the value \<open>v\<close> it serialises, or the
  \<^verbatim>\<open>URLSearchParams\<close> of the login form.
\<close>

datatype req_body = JsonText val | FormData "(string \<times> string) list"

record options =
  http_method :: "string option"
  headers :: "(string \<times> string) list"
  body :: "req_body option"

type_synonym call = "string \<times> options"

definition no_options :: options where
  "no_options = \<lparr>http_method = None, headers = [], body = None\<rparr>"

definition post :: options where
  "post = \<lparr>http_method = Some ''POST'', headers = [], body = None\<rparr>"

definition post_json :: "val \<Rightarrow> options" where
  "post_json v = \<lparr>http_method = Some ''POST'', headers = [], body = Some (JsonText v)\<rparr>"

text \<open>
  What comes back: the promise rejects, or a response arrives with a status and a body
  that \<^verbatim>\<open>response.json()\<close> either parses to a value or rejects.
\<close>

datatype resp_body = Parsed val | Unparseable

datatype fetch_result = Rejected | Response nat resp_body

definition ok :: "nat \<Rightarrow> bool" where
  "ok status = (200 \<le> status \<and> status \<le> 299)"

definition json :: "resp_body \<Rightarrow> exn + val" where
  "json b = (case b of Parsed v \<Rightarrow> Inr v | Unparseable \<Rightarrow> Inl (Fault BadJson))"

text \<open>
  The environment of a run: the server, which answers a call knowing the calls made
  before it; the engine's message texts; the host's time zone (offset in milliseconds
  at a time value, read as UTC or as local time); the engine's answer to whether the
  number a string converts to is at most zero; the ids of the elements of class
  \<^verbatim>\<open>admin-tab-content\<close>; the order in which loaders started together resume
  (\<open>arrival\<close>), and the order in which the members of a \<^verbatim>\<open>Promise.all\<close> settle
  (\<open>race\<close>). Both orders are priority lists of positions; positions they leave out
  follow in call order.
\<close>

record env =
  server :: "call list \<Rightarrow> call \<Rightarrow> fetch_result"
  fault_text :: "fault \<Rightarrow> string"
  LocalTZA :: "int \<Rightarrow> bool \<Rightarrow> int"
  numeric_le_zero :: "string \<Rightarrow> bool"
  panels :: "string list"
  arrival :: "nat list"
  race :: "nat list"

definition message :: "env \<Rightarrow> exn \<Rightarrow> string" where
  "message env e = (case e of Error m \<Rightarrow> m | Fault f \<Rightarrow> fault_text env f)"

section \<open>Global state and the document\<close>

text \<open>
  The two module variables, the \<^verbatim>\<open>token\<close> key of \<^verbatim>\<open>localStorage\<close>, and what the script
  writes into the document: \<^verbatim>\<open>style.display\<close> and \<^verbatim>\<open>innerHTML\<close> by element id, the
  message area, the \<^verbatim>\<open>active\<close> class of the admin tabs (by their \<^verbatim>\<open>data-tab\<close>) and of
  the tab panels (by id), and the forms it resets. \<open>sent\<close> lists the calls of \<^verbatim>\<open>fetch\<close>
  in the order they were made. The document holds every element the script looks up
  by a fixed id.
\<close>

record state =
  token :: val
  userRole :: val
  stored_token :: "string option"
  display :: "string \<Rightarrow> string"
  message_text :: string
  message_class :: string
  innerHTML :: "string \<Rightarrow> string"
  tab_active :: "string \<Rightarrow> bool"
  panel_active :: "string \<Rightarrow> bool"
  resets :: "string list"
  sent :: "call list"

definition API_URL :: string where
  "API_URL = ''http://127.0.0.1:8000''"

definition showMessage :: "string \<Rightarrow> string \<Rightarrow> state \<Rightarrow> state" where
  "showMessage text type s = s\<lparr>message_text := text, message_class := type\<rparr>"

definition hideAllPages :: "state \<Rightarrow> state" where
  "hideAllPages s =
     s\<lparr>display := (display s)
          (''auth-container'' := ''none'',
           ''student-dashboard'' := ''none'',
           ''admin-dashboard'' := ''none'',
           ''logout-button'' := ''none'')\<rparr>"

definition showPage :: "string \<Rightarrow> state \<Rightarrow> state" where
  "showPage pageId s =
     (let s1 = hideAllPages s;
          s2 = s1\<lparr>display := (display s1)(pageId := ''block'')\<rparr>
      in if pageId \<noteq> ''auth-container''
         then s2\<lparr>display := (display s2)(''logout-button'' := ''block'')\<rparr>
         else s2)"

text \<open>
  \<^verbatim>\<open>apiFetch(endpoint, options)\<close>: the call it makes, and its outcome. The
  \<^verbatim>\<open>Authorization\<close> header is set on a copy of the given headers (replacing one of that
  name, else added last), and \<^verbatim>\<open>Content-Type\<close> likewise when there is a body (every
  body the script passes is a non-empty string or a form object, hence truthy).
\<close>

definition api_call :: "val \<Rightarrow> string \<Rightarrow> options \<Rightarrow> call" where
  "api_call tok endpoint opts =
     (let hs = AList.update ''Authorization'' (''Bearer '' @ ToString tok) (headers opts);
          hs' = (if body opts \<noteq> None
                 then AList.update ''Content-Type'' ''application/json'' hs else hs)
      in (API_URL @ endpoint, opts\<lparr>headers := hs'\<rparr>))"

definition api_result :: "fetch_result \<Rightarrow> exn + val" where
  "api_result r =
     (case r of
        Rejected \<Rightarrow> Inl (Fault NetworkFailure)
      | Response status b \<Rightarrow>
          if \<not> ok status then
            (case json b of
               Inl e \<Rightarrow> Inl e
             | Inr errorData \<Rightarrow>
                 (case field errorData ''detail'' of
                    Inl e \<Rightarrow> Inl e
                  | Inr detail \<Rightarrow>
                      Inl (Error (ToString (if ToBoolean detail then detail
                                            else JStr ''An API error occurred'')))))
          else if status = 204 then Inr JNull
          else json b)"

definition apiFetch :: "env \<Rightarrow> string \<Rightarrow> options \<Rightarrow> state \<Rightarrow> (exn + val) \<times> state" where
  "apiFetch env endpoint opts s =
     (let c = api_call (token s) endpoint opts
      in (api_result (server env (sent s) c), s\<lparr>sent := sent s @ [c]\<rparr>))"

section \<open>Dates\<close>

text \<open>
  \<^verbatim>\<open>requestItem\<close> uses \<^verbatim>\<open>new Date()\<close>, \<^verbatim>\<open>getDate\<close>, \<^verbatim>\<open>setDate\<close> and \<^verbatim>\<open>toISOString\<close>. They are
  modelled by the time-value functions of the language definition (ECMA-262, Date
  objects): a time value is a number of milliseconds since 1970-01-01T00:00:00Z, and
  an invalid date is \<open>None\<close>.
\<close>

definition msPerDay :: int where
  "msPerDay = 86400000"

definition Day :: "int \<Rightarrow> int" where
  "Day t = t div msPerDay"

definition TimeWithinDay :: "int \<Rightarrow> int" where
  "TimeWithinDay t = t mod msPerDay"

definition DaysInYear :: "int \<Rightarrow> int" where
  "DaysInYear y =
     (if y mod 4 \<noteq> 0 then 365 else if y mod 100 \<noteq> 0 then 366
      else if y mod 400 \<noteq> 0 then 365 else 366)"

definition DayFromYear :: "int \<Rightarrow> int" where
  "DayFromYear y =
     365 * (y - 1970) + (y - 1969) div 4 - (y - 1901) div 100 + (y - 1601) div 400"

text \<open>
  The year of a day number: the largest \<open>y\<close> with \<open>DayFromYear y \<le> d\<close>, found among the
  three years around the estimate that the mean year length gives.
\<close>

definition YearFromDay :: "int \<Rightarrow> int" where
  "YearFromDay d =
     (let y = 1970 + (d * 400) div 146097
      in if DayFromYear (y + 1) \<le> d then y + 1
         else if DayFromYear y \<le> d then y else y - 1)"

definition YearFromTime :: "int \<Rightarrow> int" where
  "YearFromTime t = YearFromDay (Day t)"

definition DayWithinYear :: "int \<Rightarrow> int" where
  "DayWithinYear t = Day t - DayFromYear (YearFromTime t)"

definition InLeapYear :: "int \<Rightarrow> int" where
  "InLeapYear t = (if DaysInYear (YearFromTime t) = 366 then 1 else 0)"

text \<open>The day within the year on which month \<open>m\<close> (0 to 11) starts.\<close>

definition month_start :: "int \<Rightarrow> int \<Rightarrow> int" where
  "month_start leap m =
     (if m = 0 then 0 else if m = 1 then 31 else if m = 2 then 59 + leap
      else if m = 3 then 90 + leap else if m = 4 then 120 + leap
      else if m = 5 then 151 + leap else if m = 6 then 181 + leap
      else if m = 7 then 212 + leap else if m = 8 then 243 + leap
      else if m = 9 then 273 + leap else if m = 10 then 304 + leap
      else 334 + leap)"

definition MonthFromTime :: "int \<Rightarrow> int" where
  "MonthFromTime t =
     (let d = DayWithinYear t; leap = InLeapYear t
      in if d < 31 then 0 else if d < 59 + leap then 1 else if d < 90 + leap then 2
         else if d < 120 + leap then 3 else if d < 151 + leap then 4
         else if d < 181 + leap then 5 else if d < 212 + leap then 6
         else if d < 243 + leap then 7 else if d < 273 + leap then 8
         else if d < 304 + leap then 9 else if d < 334 + leap then 10 else 11)"

definition DateFromTime :: "int \<Rightarrow> int" where
  "DateFromTime t = DayWithinYear t - month_start (InLeapYear t) (MonthFromTime t) + 1"

definition HourFromTime :: "int \<Rightarrow> int" where
  "HourFromTime t = (t div 3600000) mod 24"

definition MinFromTime :: "int \<Rightarrow> int" where
  "MinFromTime t = (t div 60000) mod 60"

definition SecFromTime :: "int \<Rightarrow> int" where
  "SecFromTime t = (t div 1000) mod 60"

definition msFromTime :: "int \<Rightarrow> int" where
  "msFromTime t = t mod 1000"

text \<open>
  \<open>MakeDay\<close> counts from the first day of the month, so a date past the end of the month
  runs on into the following months and years.
\<close>

definition MakeDay :: "int \<Rightarrow> int \<Rightarrow> int \<Rightarrow> int" where
  "MakeDay year month date =
     (let ym = year + month div 12; mn = month mod 12
      in DayFromYear ym + month_start (if DaysInYear ym = 366 then 1 else 0) mn + date - 1)"

definition MakeDate :: "int \<Rightarrow> int \<Rightarrow> int" where
  "MakeDate day time = day * msPerDay + time"

definition TimeClip :: "int \<Rightarrow> int option" where
  "TimeClip t = (if \<bar>t\<bar> > 8640000000000000 then None else Some t)"

definition LocalTime :: "env \<Rightarrow> int \<Rightarrow> int" where
  "LocalTime env t = t + LocalTZA env t True"

definition UTC :: "env \<Rightarrow> int \<Rightarrow> int" where
  "UTC env t = t - LocalTZA env t False"

definition getDate :: "env \<Rightarrow> int \<Rightarrow> int" where
  "getDate env t = DateFromTime (LocalTime env t)"

definition setDate :: "env \<Rightarrow> int \<Rightarrow> int \<Rightarrow> int option" where
  "setDate env t dt =
     (let lt = LocalTime env t;
          newDate = MakeDate (MakeDay (YearFromTime lt) (MonthFromTime lt) dt) (TimeWithinDay lt)
      in TimeClip (UTC env newDate))"

definition pad :: "nat \<Rightarrow> string \<Rightarrow> string" where
  "pad w s = replicate (w - length s) (CHR ''0'') @ s"

definition iso_year :: "int \<Rightarrow> string" where
  "iso_year y =
     (if 0 \<le> y \<and> y \<le> 9999 then pad 4 (digits (nat y))
      else (if y < 0 then ''-'' else ''+'') @ pad 6 (digits (nat \<bar>y\<bar>)))"

definition toISOString :: "int option \<Rightarrow> exn + string" where
  "toISOString tv =
     (case tv of
        None \<Rightarrow> Inl (Fault InvalidTime)
      | Some t \<Rightarrow>
          Inr (iso_year (YearFromTime t) @ ''-'' @ pad 2 (digits (nat (MonthFromTime t + 1)))
               @ ''-'' @ pad 2 (digits (nat (DateFromTime t)))
               @ ''T'' @ pad 2 (digits (nat (HourFromTime t)))
               @ '':'' @ pad 2 (digits (nat (MinFromTime t)))
               @ '':'' @ pad 2 (digits (nat (SecFromTime t)))
               @ ''.'' @ pad 3 (digits (nat (msFromTime t))) @ ''Z''))"

text \<open>\<^verbatim>\<open>s.split('T')[0]\<close>: the text before the first \<^verbatim>\<open>T\<close>.\<close>

definition before_T :: "string \<Rightarrow> string" where
  "before_T s = takeWhile (\<lambda>c. c \<noteq> CHR ''T'') s"

text \<open>
  The first four lines of \<^verbatim>\<open>requestItem\<close>, with the clock reading \<open>now\<close>: the pair
  \<^verbatim>\<open>(borrowDate, returnDate)\<close>, or the error that \<^verbatim>\<open>toISOString\<close> throws.
\<close>

definition requestItem_dates :: "env \<Rightarrow> int \<Rightarrow> exn + string \<times> string" where
  "requestItem_dates env now =
     (case toISOString (Some now) of
        Inl e \<Rightarrow> Inl e
      | Inr str \<Rightarrow>
          (let borrowDate = before_T str;
               today = setDate env now (getDate env now + 5)
           in case toISOString today of
                Inl e \<Rightarrow> Inl e
              | Inr str' \<Rightarrow> Inr (borrowDate, before_T str')))"

section \<open>Promises in flight\<close>

text \<open>
  An \<^verbatim>\<open>async\<close> function called without \<^verbatim>\<open>await\<close> runs up to its first \<^verbatim>\<open>await\<close>, which
  sends its request, and resumes after its caller has finished. Such a function is
  split into a \<open>_start\<close> part, returning the rest of the function as a continuation, and the
  continuation itself, \<open>_done\<close>. Continuations started together resume in the order the environment
  gives. Each handler is run until nothing is in flight; a second event arriving in
  between is outside the model.
\<close>

definition arrange :: "nat list \<Rightarrow> 'a list \<Rightarrow> 'a list" where
  "arrange ord xs =
     map (nth xs) (remdups (filter (\<lambda>i. i < length xs) ord)
                   @ filter (\<lambda>i. i \<notin> set ord) [0..<length xs])"

definition settle :: "env \<Rightarrow> (state \<Rightarrow> state) list \<Rightarrow> state \<Rightarrow> state" where
  "settle env ks s = fold (\<lambda>k. k) (arrange (arrival env) ks) s"

text \<open>
  \<^verbatim>\<open>Promise.all\<close> of three calls rejects with the reason of the member that rejects
  first. (The last equation of \<open>first_rejection\<close> is never reached from \<open>Promise_all\<close>.)
\<close>

fun first_rejection :: "(exn + val) list \<Rightarrow> exn" where
  "first_rejection (Inl e # rs) = e"
| "first_rejection (Inr v # rs) = first_rejection rs"
| "first_rejection [] = Fault NetworkFailure"

definition Promise_all :: "env \<Rightarrow> exn + val \<Rightarrow> exn + val \<Rightarrow> exn + val \<Rightarrow> exn + val \<times> val \<times> val" where
  "Promise_all env r1 r2 r3 =
     (case (r1, r2, r3) of
        (Inr a, Inr b, Inr c) \<Rightarrow> Inr (a, b, c)
      | _ \<Rightarrow> Inl (first_rejection (arrange (race env) [r1, r2, r3])))"

text \<open>
  Statements that may throw give the error, if any, with the state reached;
  \<open>catch\<close> is the handler every \<^verbatim>\<open>try\<close> of the views has:
  \<^verbatim>\<open>catch (error) { showMessage(error.message, 'error'); }\<close>.
\<close>

definition catch :: "env \<Rightarrow> exn option \<times> state \<Rightarrow> state" where
  "catch env r =
     (case r of (Some e, s) \<Rightarrow> showMessage (message env e) ''error'' s | (None, s) \<Rightarrow> s)"

definition and_then ::
  "exn option \<times> state \<Rightarrow> (state \<Rightarrow> exn option \<times> state) \<Rightarrow> exn option \<times> state" where
  "and_then r f = (case r of (Some e, s) \<Rightarrow> (Some e, s) | (None, s) \<Rightarrow> f s)"

section \<open>Rendering tables\<close>

definition set_innerHTML :: "string \<Rightarrow> string \<Rightarrow> state \<Rightarrow> state" where
  "set_innerHTML el html s = s\<lparr>innerHTML := (innerHTML s)(el := html)\<rparr>"

text \<open>
  \<^verbatim>\<open>xs.forEach(item => { tbody.innerHTML += row(item) })\<close>: the row template is evaluated
  first, and an error in it leaves the rows appended so far. \<^verbatim>\<open>innerHTML\<close> is taken to
  read back the text that was assigned.
\<close>

fun add_rows :: "string \<Rightarrow> (val \<Rightarrow> exn + string) \<Rightarrow> val list \<Rightarrow> state \<Rightarrow> exn option \<times> state" where
  "add_rows tbody row [] s = (None, s)"
| "add_rows tbody row (item # items) s =
     (case row item of
        Inl e \<Rightarrow> (Some e, s)
      | Inr html \<Rightarrow> add_rows tbody row items (set_innerHTML tbody (innerHTML s tbody @ html) s))"

definition forEach_row :: "val \<Rightarrow> string \<Rightarrow> (val \<Rightarrow> exn + string) \<Rightarrow> state \<Rightarrow> exn option \<times> state" where
  "forEach_row v tbody row s =
     (case v of
        JArr items \<Rightarrow> add_rows tbody row items s
      | JUndefined \<Rightarrow> (Some (Fault NullAccess), s)
      | JNull \<Rightarrow> (Some (Fault NullAccess), s)
      | _ \<Rightarrow> (Some (Fault NotCallable), s))"

text \<open>\<^verbatim>\<open>${item.k}\<close> in a template, for an item that is neither \<^verbatim>\<open>null\<close> nor \<^verbatim>\<open>undefined\<close>.\<close>

definition get :: "val \<Rightarrow> string \<Rightarrow> val" where
  "get item k = (case field item k of Inr v \<Rightarrow> v | Inl e \<Rightarrow> JUndefined)"

definition nullish :: "val \<Rightarrow> bool" where
  "nullish v = (v = JNull \<or> v = JUndefined)"

text \<open>
  \<^verbatim>\<open>v <= 0\<close>: \<open>v\<close> is converted to a number, and the comparison is false when that is
  NaN. Strings, and arrays and objects through their string form, are converted by
  the engine.
\<close>

definition le_zero :: "env \<Rightarrow> val \<Rightarrow> bool" where
  "le_zero env v =
     (case v of
        JUndefined \<Rightarrow> False
      | JNull \<Rightarrow> True
      | JBool b \<Rightarrow> \<not> b
      | JNum n \<Rightarrow> n \<le> 0
      | JStr str \<Rightarrow> numeric_le_zero env str
      | _ \<Rightarrow> numeric_le_zero env (ToString v))"

text \<open>
  The row templates, character for character. The attribute of the Request button is
  \<^verbatim>\<open>${item.available_quantity <= 0 || item.status !== 'available' ? 'disabled' : ''}\<close>.
\<close>

definition request_button_attr :: "env \<Rightarrow> val \<Rightarrow> string" where
  "request_button_attr env item =
     (if le_zero env (get item ''available_quantity'') \<or> get item ''status'' \<noteq> JStr ''available''
      then ''disabled'' else '''')"

definition equipment_row :: "env \<Rightarrow> val \<Rightarrow> exn + string" where
  \<open>equipment_row env item =
     (if nullish item then Inl (Fault NullAccess)
      else Inr
         (''\<newline>                <tr>\<newline>                    <td>''
          @ ToString (get item ''name'')
          @ ''</td>\<newline>                    <td>''
          @ ToString (get item ''category'')
          @ ''</td>\<newline>                    <td>''
          @ ToString (get item ''available_quantity'')
          @ ''</td>\<newline>                    <td>''
          @ ToString (get item ''status'')
          @ ''</td>\<newline>                    <td>\<newline>                        <button \<newline>                            class="btn" \<newline>                            onclick="requestItem(''
          @ ToString (get item ''equipment_id'')
          @ '')"\<newline>                            ''
          @ request_button_attr env item
          @ ''>\<newline>                            Request\<newline>                        </button>\<newline>                    </td>\<newline>                </tr>\<newline>            ''))\<close>

definition my_request_row :: "val \<Rightarrow> exn + string" where
  \<open>my_request_row req =
     (if nullish req then Inl (Fault NullAccess)
      else Inr
         (''\<newline>                <tr>\<newline>                    <td>''
          @ ToString (get req ''request_id'')
          @ ''</td>\<newline>                    <td>''
          @ ToString (get req ''equipment_id'')
          @ ''</td>\<newline>                    <td>''
          @ ToString (get req ''status'')
          @ ''</td>\<newline>                    <td>''
          @ ToString (get req ''expected_return_date'')
          @ ''</td>\<newline>                    <td>\<newline>                        ''
          @ (if get req ''status'' = JStr ''approved''
          then ''<button class="btn btn-success" onclick="returnItem(''
               @ ToString (get req ''request_id'')
               @ '')">Return</button>''
          else '''')
          @ ''\<newline>                        ''
          @ (if get req ''status'' \<noteq> JStr ''returned''
          then ''<button class="btn btn-danger" onclick="reportDamage(''
               @ ToString (get req ''equipment_id'')
               @ '')">Report Damage</button>''
          else '''')
          @ ''\<newline>                    </td>\<newline>                </tr>\<newline>            ''))\<close>

definition pending_row :: "val \<Rightarrow> exn + string" where
  \<open>pending_row req =
     (if nullish req then Inl (Fault NullAccess)
      else Inr
         (''\<newline>                <tr>\<newline>                    <td>''
          @ ToString (get req ''request_id'')
          @ ''</td>\<newline>                    <td>''
          @ ToString (get req ''user_id'')
          @ ''</td>\<newline>                    <td>''
          @ ToString (get req ''equipment_id'')
          @ ''</td>\<newline>                    <td>''
          @ ToString (get req ''expected_return_date'')
          @ ''</td>\<newline>                    <td>\<newline>                        <input type="date" class="form-input" id="return-date-''
          @ ToString (get req ''request_id'')
          @ ''" value="''
          @ ToString (get req ''expected_return_date'')
          @ ''">\<newline>                    </td>\<newline>                    <td>\<newline>                        <button class="btn btn-success" onclick="adminApprove(''
          @ ToString (get req ''request_id'')
          @ '')">Approve</button>\<newline>                        <button class="btn btn-danger" onclick="adminReject(''
          @ ToString (get req ''request_id'')
          @ '')">Reject</button>\<newline>                    </td>\<newline>                </tr>\<newline>            ''))\<close>

definition inventory_row :: "val \<Rightarrow> exn + string" where
  \<open>inventory_row item =
     (if nullish item then Inl (Fault NullAccess)
      else Inr
         (''\<newline>                <tr>\<newline>                    <td>''
          @ ToString (get item ''equipment_id'')
          @ ''</td>\<newline>                    <td>''
          @ ToString (get item ''name'')
          @ ''</td>\<newline>                    <td>''
          @ ToString (get item ''available_quantity'')
          @ '' / ''
          @ ToString (get item ''total_quantity'')
          @ ''</td>\<newline>                    <td>''
          @ ToString (get item ''status'')
          @ ''</td>\<newline>                    <td>\<newline>                        <button class="btn btn-danger" onclick="adminDeleteItem(''
          @ ToString (get item ''equipment_id'')
          @ '')">Delete</button>\<newline>                    </td>\<newline>                </tr>\<newline>            ''))\<close>

definition overdue_row :: "val \<Rightarrow> exn + string" where
  \<open>overdue_row item =
     (if nullish item then Inl (Fault NullAccess)
      else Inr
         (''<tr><td>''
          @ ToString (get item ''request_id'')
          @ ''</td><td>''
          @ ToString (get item ''user_id'')
          @ ''</td><td>''
          @ ToString (get item ''equipment_id'')
          @ ''</td><td>''
          @ ToString (get item ''status'')
          @ ''</td></tr>''))\<close>

definition repair_row :: "val \<Rightarrow> exn + string" where
  \<open>repair_row item =
     (if nullish item then Inl (Fault NullAccess)
      else Inr
         (''\<newline>                <tr>\<newline>                    <td>''
          @ ToString (get item ''repair_id'')
          @ ''</td>\<newline>                    <td>''
          @ ToString (get item ''equipment_id'')
          @ ''</td>\<newline>                    <td>''
          @ ToString (get item ''description'')
          @ ''</td>\<newline>                    <td>''
          @ ToString (get item ''repair_status'')
          @ ''</td>\<newline>                    <td>\<newline>                        ''
          @ (if get item ''repair_status'' = JStr ''pending''
          then ''<button class="btn" onclick="adminCompleteRepair(''
               @ ToString (get item ''repair_id'')
               @ '')">Complete</button>''
          else '''')
          @ ''\<newline>                    </td>\<newline>                </tr>\<newline>            ''))\<close>

definition analytics_row :: "val \<Rightarrow> exn + string" where
  \<open>analytics_row item =
     (if nullish item then Inl (Fault NullAccess)
      else Inr
         (''<tr><td>''
          @ ToString (get item ''equipment_id'')
          @ ''</td><td>''
          @ ToString (get item ''name'')
          @ ''</td><td>''
          @ ToString (get item ''request_count'')
          @ ''</td></tr>''))\<close>

section \<open>Loading the dashboards\<close>

text \<open>The body of each loader's \<^verbatim>\<open>try\<close> after the awaited call, given the value it resolved to.\<close>

definition render_student_equipment :: "env \<Rightarrow> val \<Rightarrow> state \<Rightarrow> exn option \<times> state" where
  \<open>render_student_equipment env equipment s =
     (let s1 = set_innerHTML ''equipment-list-tbody'' '''' s
      in case field equipment ''length'' of
           Inl e \<Rightarrow> (Some e, s1)
         | Inr n \<Rightarrow>
             if n = JNum 0
             then (None, set_innerHTML ''equipment-list-tbody''
                           ''<tr><td colspan="5">No equipment available.</td></tr>'' s1)
             else forEach_row equipment ''equipment-list-tbody'' (equipment_row env) s1)\<close>

definition render_student_requests :: "val \<Rightarrow> state \<Rightarrow> exn option \<times> state" where
  \<open>render_student_requests requests s =
     (let s1 = set_innerHTML ''my-requests-tbody'' '''' s
      in case field requests ''length'' of
           Inl e \<Rightarrow> (Some e, s1)
         | Inr n \<Rightarrow>
             if n = JNum 0
             then (None, set_innerHTML ''my-requests-tbody''
                           ''<tr><td colspan="5">You have no requests.</td></tr>'' s1)
             else forEach_row requests ''my-requests-tbody'' my_request_row s1)\<close>

definition render_admin_pending :: "val \<Rightarrow> state \<Rightarrow> exn option \<times> state" where
  \<open>render_admin_pending requests s =
     (let s1 = set_innerHTML ''admin-pending-tbody'' '''' s
      in case field requests ''length'' of
           Inl e \<Rightarrow> (Some e, s1)
         | Inr n \<Rightarrow>
             if n = JNum 0
             then (None, set_innerHTML ''admin-pending-tbody''
                           ''<tr><td colspan="6">No pending requests.</td></tr>'' s1)
             else forEach_row requests ''admin-pending-tbody'' pending_row s1)\<close>

definition render_admin_inventory :: "val \<Rightarrow> state \<Rightarrow> exn option \<times> state" where
  "render_admin_inventory equipment s =
     forEach_row equipment ''admin-inventory-tbody'' inventory_row
       (set_innerHTML ''admin-inventory-tbody'' '''' s)"

definition render_admin_reports :: "val \<times> val \<times> val \<Rightarrow> state \<Rightarrow> exn option \<times> state" where
  "render_admin_reports r s =
     (case r of (overdue, repairs, analytics) \<Rightarrow>
        and_then
          (and_then
             (forEach_row overdue ''overdue-tbody'' overdue_row
                (set_innerHTML ''overdue-tbody'' '''' s))
             (\<lambda>s1. forEach_row repairs ''repairs-tbody'' repair_row
                     (set_innerHTML ''repairs-tbody'' '''' s1)))
          (\<lambda>s2. forEach_row analytics ''analytics-tbody'' analytics_row
                  (set_innerHTML ''analytics-tbody'' '''' s2)))"

text \<open>A loader after its \<^verbatim>\<open>await\<close>: the \<^verbatim>\<open>try\<close> body on the outcome of the call, and the \<^verbatim>\<open>catch\<close>.\<close>

definition resume :: "env \<Rightarrow> (val \<Rightarrow> state \<Rightarrow> exn option \<times> state) \<Rightarrow> exn + val \<Rightarrow> state \<Rightarrow> state" where
  "resume env render r s =
     catch env (case r of Inl e \<Rightarrow> (Some e, s) | Inr v \<Rightarrow> render v s)"

definition loadStudentEquipment_done :: "env \<Rightarrow> exn + val \<Rightarrow> state \<Rightarrow> state" where
  "loadStudentEquipment_done env = resume env (render_student_equipment env)"

definition loadStudentRequests_done :: "env \<Rightarrow> exn + val \<Rightarrow> state \<Rightarrow> state" where
  "loadStudentRequests_done env = resume env render_student_requests"

definition loadAdminPending_done :: "env \<Rightarrow> exn + val \<Rightarrow> state \<Rightarrow> state" where
  "loadAdminPending_done env = resume env render_admin_pending"

definition loadAdminInventory_done :: "env \<Rightarrow> exn + val \<Rightarrow> state \<Rightarrow> state" where
  "loadAdminInventory_done env = resume env render_admin_inventory"

definition loadAdminReports_done :: "env \<Rightarrow> exn + val \<Rightarrow> exn + val \<Rightarrow> exn + val \<Rightarrow> state \<Rightarrow> state" where
  "loadAdminReports_done env r1 r2 r3 s =
     catch env (case Promise_all env r1 r2 r3 of
                  Inl e \<Rightarrow> (Some e, s)
                | Inr r \<Rightarrow> render_admin_reports r s)"

text \<open>A loader up to its \<^verbatim>\<open>await\<close>: the request goes out, the rest is a continuation.\<close>

definition start :: "env \<Rightarrow> string \<Rightarrow> (exn + val \<Rightarrow> state \<Rightarrow> state) \<Rightarrow> state \<Rightarrow> (state \<Rightarrow> state) \<times> state" where
  "start env endpoint k s =
     (case apiFetch env endpoint no_options s of (r, s1) \<Rightarrow> (k r, s1))"

definition loadStudentEquipment_start :: "env \<Rightarrow> state \<Rightarrow> (state \<Rightarrow> state) \<times> state" where
  "loadStudentEquipment_start env = start env ''/equipment/'' (loadStudentEquipment_done env)"

definition loadStudentRequests_start :: "env \<Rightarrow> state \<Rightarrow> (state \<Rightarrow> state) \<times> state" where
  "loadStudentRequests_start env = start env ''/requests/my/'' (loadStudentRequests_done env)"

definition loadAdminPending_start :: "env \<Rightarrow> state \<Rightarrow> (state \<Rightarrow> state) \<times> state" where
  "loadAdminPending_start env = start env ''/requests/pending/'' (loadAdminPending_done env)"

definition loadAdminInventory_start :: "env \<Rightarrow> state \<Rightarrow> (state \<Rightarrow> state) \<times> state" where
  "loadAdminInventory_start env = start env ''/equipment/'' (loadAdminInventory_done env)"

definition loadAdminReports_start :: "env \<Rightarrow> state \<Rightarrow> (state \<Rightarrow> state) \<times> state" where
  "loadAdminReports_start env s =
     (case apiFetch env ''/requests/overdue/'' no_options s of (r1, s1) \<Rightarrow>
      case apiFetch env ''/repairs/'' no_options s1 of (r2, s2) \<Rightarrow>
      case apiFetch env ''/analytics/usage'' no_options s2 of (r3, s3) \<Rightarrow>
        (loadAdminReports_done env r1 r2 r3, s3))"

text \<open>A loader called on its own runs to its end.\<close>

definition finish :: "(state \<Rightarrow> state) \<times> state \<Rightarrow> state" where
  "finish p = (case p of (k, s) \<Rightarrow> k s)"

definition loadStudentEquipment :: "env \<Rightarrow> state \<Rightarrow> state" where
  "loadStudentEquipment env s = finish (loadStudentEquipment_start env s)"

definition loadStudentRequests :: "env \<Rightarrow> state \<Rightarrow> state" where
  "loadStudentRequests env s = finish (loadStudentRequests_start env s)"

definition loadAdminPending :: "env \<Rightarrow> state \<Rightarrow> state" where
  "loadAdminPending env s = finish (loadAdminPending_start env s)"

definition loadAdminInventory :: "env \<Rightarrow> state \<Rightarrow> state" where
  "loadAdminInventory env s = finish (loadAdminInventory_start env s)"

definition loadAdminReports :: "env \<Rightarrow> state \<Rightarrow> state" where
  "loadAdminReports env s = finish (loadAdminReports_start env s)"

text \<open>
  \<^verbatim>\<open>loadStudentData\<close> and \<^verbatim>\<open>loadAdminData\<close> start their loaders one after the other; the
  loaders resume once the caller is through.
\<close>

definition loadStudentData_start :: "env \<Rightarrow> state \<Rightarrow> (state \<Rightarrow> state) list \<times> state" where
  "loadStudentData_start env s =
     (case loadStudentEquipment_start env s of (k1, s1) \<Rightarrow>
      case loadStudentRequests_start env s1 of (k2, s2) \<Rightarrow> ([k1, k2], s2))"

definition loadAdminData_start :: "env \<Rightarrow> state \<Rightarrow> (state \<Rightarrow> state) list \<times> state" where
  "loadAdminData_start env s =
     (case loadAdminPending_start env s of (k1, s1) \<Rightarrow>
      case loadAdminInventory_start env s1 of (k2, s2) \<Rightarrow>
      case loadAdminReports_start env s2 of (k3, s3) \<Rightarrow> ([k1, k2, k3], s3))"

definition loadStudentData :: "env \<Rightarrow> state \<Rightarrow> state" where
  "loadStudentData env s = (case loadStudentData_start env s of (ks, s1) \<Rightarrow> settle env ks s1)"

definition loadAdminData :: "env \<Rightarrow> state \<Rightarrow> state" where
  "loadAdminData env s = (case loadAdminData_start env s of (ks, s1) \<Rightarrow> settle env ks s1)"

section \<open>Signing in and out\<close>

text \<open>The two links that swap the login and registration cards.\<close>

definition show_register_click :: "state \<Rightarrow> state" where
  "show_register_click s =
     s\<lparr>display := (display s)(''login-card'' := ''none'', ''register-card'' := ''block'')\<rparr>"

definition show_login_click :: "state \<Rightarrow> state" where
  "show_login_click s =
     s\<lparr>display := (display s)(''login-card'' := ''block'', ''register-card'' := ''none'')\<rparr>"

text \<open>
  Registration and login call \<^verbatim>\<open>fetch\<close> themselves, without the \<^verbatim>\<open>Authorization\<close> header,
  and parse the body before they look at the status. \<open>plain_fetch\<close> is that call with
  \<^verbatim>\<open>await response.json()\<close>: the status and the parsed body, or the error.
\<close>

definition plain_fetch :: "env \<Rightarrow> call \<Rightarrow> state \<Rightarrow> (exn + nat \<times> val) \<times> state" where
  "plain_fetch env c s =
     (case server env (sent s) c of
        Rejected \<Rightarrow> Inl (Fault NetworkFailure)
      | Response status b \<Rightarrow>
          (case json b of Inl e \<Rightarrow> Inl e | Inr data \<Rightarrow> Inr (status, data)),
      s\<lparr>sent := sent s @ [c]\<rparr>)"

text \<open>\<^verbatim>\<open>if (!response.ok) throw new Error(data.detail || fallback)\<close>.\<close>

definition check_ok :: "nat \<Rightarrow> val \<Rightarrow> string \<Rightarrow> exn option" where
  "check_ok status data fallback =
     (if \<not> ok status then
        (case field data ''detail'' of
           Inl e \<Rightarrow> Some e
         | Inr detail \<Rightarrow>
             Some (Error (ToString (if ToBoolean detail then detail else JStr fallback))))
      else None)"

definition register_submit :: "env \<Rightarrow> string \<Rightarrow> string \<Rightarrow> string \<Rightarrow> state \<Rightarrow> state" where
  "register_submit env username password role s =
     (case plain_fetch env
             (API_URL @ ''/register/'',
              \<lparr>http_method = Some ''POST'',
               headers = [(''Content-Type'', ''application/json'')],
               body = Some (JsonText (JObj [(''username'', JStr username),
                                            (''password'', JStr password),
                                            (''role'', JStr role)]))\<rparr>) s of
        (Inl e, s1) \<Rightarrow> showMessage (message env e) ''error'' s1
      | (Inr (status, data), s1) \<Rightarrow>
          (case check_ok status data ''Failed to register'' of
             Some e \<Rightarrow> showMessage (message env e) ''error'' s1
           | None \<Rightarrow>
               (let s2 = showMessage ''Registration successful! Please log in.'' ''success'' s1;
                    s3 = show_login_click s2
                in s3\<lparr>resets := resets s3 @ [''register-form'']\<rparr>)))"

text \<open>
  \<^verbatim>\<open>loadUserDashboard\<close>. Its \<^verbatim>\<open>catch\<close> receives whatever the role lookup throws: the error
  of \<^verbatim>\<open>apiFetch\<close>, or the TypeError of \<^verbatim>\<open>user.role\<close> on \<^verbatim>\<open>null\<close>. The data loaders are called
  without \<^verbatim>\<open>await\<close>, so \<^verbatim>\<open>'Login successful!'\<close> is shown before they resume.
\<close>

definition dashboard_failed :: "env \<Rightarrow> exn \<Rightarrow> state \<Rightarrow> state" where
  "dashboard_failed env e s =
     (let s1 = showMessage (message env e) ''error'' s;
          s2 = s1\<lparr>token := JNull\<rparr>;
          s3 = s2\<lparr>stored_token := None\<rparr>
      in showPage ''auth-container'' s3)"

definition loadUserDashboard :: "env \<Rightarrow> state \<Rightarrow> state" where
  "loadUserDashboard env s =
     (case apiFetch env ''/users/me/'' no_options s of
        (Inl e, s1) \<Rightarrow> dashboard_failed env e s1
      | (Inr user, s1) \<Rightarrow>
          (case field user ''role'' of
             Inl e \<Rightarrow> dashboard_failed env e s1
           | Inr role \<Rightarrow>
               (let s2 = s1\<lparr>userRole := role\<rparr>
                in if userRole s2 = JStr ''admin''
                   then (case loadAdminData_start env (showPage ''admin-dashboard'' s2) of
                           (ks, s3) \<Rightarrow>
                             settle env ks (showMessage ''Login successful!'' ''success'' s3))
                   else (case loadStudentData_start env (showPage ''student-dashboard'' s2) of
                           (ks, s3) \<Rightarrow>
                             settle env ks (showMessage ''Login successful!'' ''success'' s3)))))"

text \<open>\<^verbatim>\<open>localStorage.setItem\<close> stores the string form of the value it is given.\<close>

definition login_submit :: "env \<Rightarrow> string \<Rightarrow> string \<Rightarrow> state \<Rightarrow> state" where
  "login_submit env username password s =
     (case plain_fetch env
             (API_URL @ ''/token'',
              \<lparr>http_method = Some ''POST'',
               headers = [(''Content-Type'', ''application/x-www-form-urlencoded'')],
               body = Some (FormData [(''username'', username), (''password'', password)])\<rparr>) s of
        (Inl e, s1) \<Rightarrow> showMessage (message env e) ''error'' s1
      | (Inr (status, data), s1) \<Rightarrow>
          (case check_ok status data ''Failed to log in'' of
             Some e \<Rightarrow> showMessage (message env e) ''error'' s1
           | None \<Rightarrow>
               (case field data ''access_token'' of
                  Inl e \<Rightarrow> showMessage (message env e) ''error'' s1
                | Inr t \<Rightarrow>
                    (let s2 = s1\<lparr>token := t\<rparr>;
                         s3 = s2\<lparr>stored_token := Some (ToString (token s2))\<rparr>
                     in loadUserDashboard env s3))))"

definition logout_click :: "state \<Rightarrow> state" where
  "logout_click s =
     (let s1 = s\<lparr>token := JNull\<rparr>;
          s2 = s1\<lparr>userRole := JNull\<rparr>;
          s3 = s2\<lparr>stored_token := None\<rparr>;
          s4 = showMessage ''You have been logged out.'' ''success'' s3
      in showPage ''auth-container'' s4)"

text \<open>\<^verbatim>\<open>init\<close>: a saved token is a string, truthy unless empty.\<close>

definition init :: "env \<Rightarrow> state \<Rightarrow> state" where
  "init env s =
     (case stored_token s of
        None \<Rightarrow> showPage ''auth-container'' s
      | Some savedToken \<Rightarrow>
          if savedToken \<noteq> '''' then loadUserDashboard env (s\<lparr>token := JStr savedToken\<rparr>)
          else showPage ''auth-container'' s)"

section \<open>Actions of the views\<close>

text \<open>
  The actions that change something on the server share one shape: one awaited
  \<^verbatim>\<open>apiFetch\<close>; on success a message and what follows it (a refresh); on an error the
  message of the error.
\<close>

definition mutate :: "env \<Rightarrow> string \<Rightarrow> options \<Rightarrow> (val \<Rightarrow> state \<Rightarrow> state) \<Rightarrow> state \<Rightarrow> state" where
  "mutate env endpoint opts after s =
     (case apiFetch env endpoint opts s of
        (Inl e, s1) \<Rightarrow> showMessage (message env e) ''error'' s1
      | (Inr v, s1) \<Rightarrow> after v s1)"

text \<open>
  \<^verbatim>\<open>requestItem\<close>, with the clock reading \<open>now\<close>. The date lines stand before the \<^verbatim>\<open>try\<close>:
  an error there ends the function with nothing done.
\<close>

definition requestItem :: "env \<Rightarrow> int \<Rightarrow> val \<Rightarrow> state \<Rightarrow> state" where
  "requestItem env now equipmentId s =
     (case requestItem_dates env now of
        Inl e \<Rightarrow> s
      | Inr (borrowDate, returnDate) \<Rightarrow>
          mutate env ''/requests/''
            (post_json (JObj [(''equipment_id'', equipmentId),
                              (''borrow_date'', JStr borrowDate),
                              (''expected_return_date'', JStr returnDate)]))
            (\<lambda>v s1. loadStudentData env
                       (showMessage ''Request submitted successfully!'' ''success'' s1)) s)"

definition returnItem :: "env \<Rightarrow> val \<Rightarrow> state \<Rightarrow> state" where
  "returnItem env requestId s =
     mutate env (''/requests/'' @ ToString requestId @ ''/return'') post
       (\<lambda>v s1. loadStudentData env (showMessage ''Item returned successfully!'' ''success'' s1)) s"

text \<open>\<^verbatim>\<open>reportDamage\<close>; \<open>description\<close> is what \<^verbatim>\<open>prompt\<close> returned, \<open>None\<close> when cancelled.\<close>

definition reportDamage :: "env \<Rightarrow> val \<Rightarrow> string option \<Rightarrow> state \<Rightarrow> state" where
  "reportDamage env equipmentId description s =
     (case description of
        None \<Rightarrow> s
      | Some d \<Rightarrow>
          if d = '''' then s
          else mutate env (''/equipment/'' @ ToString equipmentId @ ''/report-damage'')
                 (post_json (JObj [(''equipment_id'', equipmentId), (''description'', JStr d)]))
                 (\<lambda>v s1. loadStudentData env
                            (showMessage ''Damage reported. Thank you.'' ''success'' s1)) s)"

text \<open>
  \<^verbatim>\<open>adminApprove\<close>; \<open>returnDate\<close> is the \<^verbatim>\<open>value\<close> of the input \<^verbatim>\<open>return-date-<id>\<close>, \<open>None\<close>
  when the document has no such input (the lookup then throws before the \<^verbatim>\<open>try\<close>).
\<close>

definition adminApprove :: "env \<Rightarrow> val \<Rightarrow> string option \<Rightarrow> state \<Rightarrow> state" where
  "adminApprove env requestId returnDate s =
     (case returnDate of
        None \<Rightarrow> s
      | Some d \<Rightarrow>
          if d = '''' then showMessage ''Please set a return date.'' ''error'' s
          else mutate env (''/requests/'' @ ToString requestId @ ''/approve'')
                 (post_json (JObj [(''expected_return_date'', JStr d)]))
                 (\<lambda>v s1. loadAdminPending env (showMessage ''Request approved.'' ''success'' s1)) s)"

definition adminReject :: "env \<Rightarrow> val \<Rightarrow> state \<Rightarrow> state" where
  "adminReject env requestId s =
     mutate env (''/requests/'' @ ToString requestId @ ''/reject'') post
       (\<lambda>v s1. loadAdminPending env (showMessage ''Request rejected.'' ''success'' s1)) s"

text \<open>
  \<^verbatim>\<open>parseInt(str, 10)\<close>: leading white space, an optional sign, then the longest run of
  decimal digits; \<open>None\<close> is NaN, which \<^verbatim>\<open>JSON.stringify\<close> writes as \<^verbatim>\<open>null\<close>. The white
  space is the engine's, as far as the 8-bit characters of the model go: space, tab,
  line feed, vertical tab, form feed, carriage return and no-break space. The result
  is the integer written, where an engine rounds one beyond \<^verbatim>\<open>2 ** 53\<close> to a double.
\<close>

definition parseInt :: "string \<Rightarrow> int option" where
  "parseInt str =
     (let t = dropWhile (\<lambda>c. c \<in> set [CHR '' '', CHR 0x09, CHR 0x0A, CHR 0x0B, CHR 0x0C,
                                        CHR 0x0D, CHR 0xA0]) str;
          neg = (t \<noteq> [] \<and> hd t = CHR ''-'');
          u = (if t \<noteq> [] \<and> (hd t = CHR ''-'' \<or> hd t = CHR ''+'') then tl t else t);
          ds = takeWhile (\<lambda>c. c \<in> set ''0123456789'') u;
          n = foldl (\<lambda>a c. 10 * a + (int (of_char c) - 48)) 0 ds
      in if ds = [] then None else Some (if neg then - n else n))"

text \<open>
  The add-equipment form. The inventory loader is started, then the form is reset,
  then the loader resumes.
\<close>

definition add_equipment_submit :: "env \<Rightarrow> string \<Rightarrow> string \<Rightarrow> string \<Rightarrow> state \<Rightarrow> state" where
  "add_equipment_submit env name category quantity s =
     mutate env ''/equipment/''
       (post_json (JObj [(''name'', JStr name),
                         (''category'', JStr category),
                         (''condition'', JStr ''New''),
                         (''total_quantity'',
                          case parseInt quantity of None \<Rightarrow> JNull | Some n \<Rightarrow> JNum n)]))
       (\<lambda>v s1. case loadAdminInventory_start env (showMessage ''Equipment added.'' ''success'' s1) of
                  (k, s2) \<Rightarrow> k (s2\<lparr>resets := resets s2 @ [''add-equipment-form'']\<rparr>)) s"

text \<open>\<^verbatim>\<open>adminDeleteItem\<close>; \<open>confirmed\<close> is the answer to \<^verbatim>\<open>confirm\<close>.\<close>

definition adminDeleteItem :: "env \<Rightarrow> val \<Rightarrow> bool \<Rightarrow> state \<Rightarrow> state" where
  "adminDeleteItem env equipmentId confirmed s =
     (if \<not> confirmed then s
      else mutate env (''/equipment/'' @ ToString equipmentId)
             \<lparr>http_method = Some ''DELETE'', headers = [], body = None\<rparr>
             (\<lambda>v s1. loadAdminInventory env (showMessage ''Equipment deleted.'' ''success'' s1)) s)"

text \<open>The overdue check reads \<^verbatim>\<open>data.length\<close> inside its \<^verbatim>\<open>try\<close>.\<close>

definition check_overdue_click :: "env \<Rightarrow> state \<Rightarrow> state" where
  "check_overdue_click env s =
     mutate env ''/requests/check-overdue/'' post
       (\<lambda>data s1. case field data ''length'' of
                     Inl e \<Rightarrow> showMessage (message env e) ''error'' s1
                   | Inr n \<Rightarrow>
                       loadAdminReports env
                         (showMessage (ToString n @ '' item(s) marked as overdue.'') ''success'' s1)) s"

definition adminCompleteRepair :: "env \<Rightarrow> val \<Rightarrow> state \<Rightarrow> state" where
  "adminCompleteRepair env repairId s =
     mutate env (''/repairs/'' @ ToString repairId @ ''/complete'') post
       (\<lambda>v s1. loadAdminReports env (showMessage ''Repair marked as complete.'' ''success'' s1)) s"

text \<open>
  A click on the admin tab whose \<^verbatim>\<open>data-tab\<close> is \<open>k\<close>: the class \<^verbatim>\<open>active\<close> leaves every tab
  and panel, is put on this tab and on the element \<^verbatim>\<open>tab-<k>\<close>, and the tab's data is
  loaded.
\<close>

definition tab_click :: "env \<Rightarrow> string \<Rightarrow> state \<Rightarrow> state" where
  "tab_click env k s =
     (let s1 = s\<lparr>tab_active := (\<lambda>t. False)\<rparr>;
          s2 = s1\<lparr>panel_active := (\<lambda>p. if p \<in> set (panels env) then False else panel_active s1 p)\<rparr>;
          s3 = s2\<lparr>tab_active := (tab_active s2)(k := True)\<rparr>;
          s4 = s3\<lparr>panel_active := (panel_active s3)(''tab-'' @ k := True)\<rparr>
      in if k = ''pending'' then loadAdminPending env s4
         else if k = ''equipment'' then loadAdminInventory env s4
         else if k = ''reports'' then loadAdminReports env s4
         else s4)"

section \<open>Every operation of the script\<close>

text \<open>
  The event handlers and the functions they reach, with what each reads from outside:
  form fields, dialog answers, the clock.
\<close>

datatype operation =
    Init
  | ShowRegister
  | ShowLogin
  | RegisterSubmit string string string
  | LoginSubmit string string
  | LogoutClick
  | LoadUserDashboard
  | LoadStudentData
  | LoadStudentEquipment
  | LoadStudentRequests
  | RequestItem int val
  | ReturnItem val
  | ReportDamage val "string option"
  | TabClick string
  | LoadAdminData
  | LoadAdminPending
  | AdminApprove val "string option"
  | AdminReject val
  | LoadAdminInventory
  | AddEquipmentSubmit string string string
  | AdminDeleteItem val bool
  | LoadAdminReports
  | CheckOverdueClick
  | AdminCompleteRepair val

fun run :: "env \<Rightarrow> operation \<Rightarrow> state \<Rightarrow> state" where
  "run env Init s = init env s"
| "run env ShowRegister s = show_register_click s"
| "run env ShowLogin s = show_login_click s"
| "run env (RegisterSubmit u p r) s = register_submit env u p r s"
| "run env (LoginSubmit u p) s = login_submit env u p s"
| "run env LogoutClick s = logout_click s"
| "run env LoadUserDashboard s = loadUserDashboard env s"
| "run env LoadStudentData s = loadStudentData env s"
| "run env LoadStudentEquipment s = loadStudentEquipment env s"
| "run env LoadStudentRequests s = loadStudentRequests env s"
| "run env (RequestItem now i) s = requestItem env now i s"
| "run env (ReturnItem i) s = returnItem env i s"
| "run env (ReportDamage i d) s = reportDamage env i d s"
| "run env (TabClick k) s = tab_click env k s"
| "run env LoadAdminData s = loadAdminData env s"
| "run env LoadAdminPending s = loadAdminPending env s"
| "run env (AdminApprove i d) s = adminApprove env i d s"
| "run env (AdminReject i) s = adminReject env i s"
| "run env LoadAdminInventory s = loadAdminInventory env s"
| "run env (AddEquipmentSubmit n c q) s = add_equipment_submit env n c q s"
| "run env (AdminDeleteItem i c) s = adminDeleteItem env i c s"
| "run env LoadAdminReports s = loadAdminReports env s"
| "run env CheckOverdueClick s = check_overdue_click env s"
| "run env (AdminCompleteRepair i) s = adminCompleteRepair env i s"

section \<open>What the operations leave alone\<close>

text \<open>
  A call is authorised under a token when it carries \<^verbatim>\<open>Authorization: Bearer <token>\<close>.
  The view is the \<^verbatim>\<open>display\<close> of the three page containers and of the logout button. A
  step from \<open>s\<close> to \<open>s'\<close> is quiet when it keeps the token, the role, the stored token and
  the view, and every call it adds to \<open>sent\<close> is authorised under the token.
\<close>

definition authorised :: "val \<Rightarrow> call \<Rightarrow> bool" where
  "authorised tok c \<longleftrightarrow>
     map_of (headers (snd c)) ''Authorization'' = Some (''Bearer '' @ ToString tok)"

definition view :: "state \<Rightarrow> string list" where
  "view s = map (display s)
     [''auth-container'', ''student-dashboard'', ''admin-dashboard'', ''logout-button'']"

definition quiet :: "state \<Rightarrow> state \<Rightarrow> bool" where
  "quiet s s' \<longleftrightarrow>
     token s' = token s \<and> userRole s' = userRole s \<and> stored_token s' = stored_token s \<and>
     view s' = view s \<and>
     (\<exists>cs. sent s' = sent s @ cs \<and> (\<forall>c \<in> set cs. authorised (token s) c))"

definition quiet_rest :: "(state \<Rightarrow> state) \<Rightarrow> bool" where
  "quiet_rest k \<longleftrightarrow> (\<forall>t. quiet t (k t))"

text \<open>A started loader: the request has gone out quietly and the continuation left over is quiet.\<close>

definition quiet_started :: "state \<Rightarrow> (state \<Rightarrow> state) \<times> state \<Rightarrow> bool" where
  "quiet_started s p \<longleftrightarrow> quiet_rest (fst p) \<and> quiet s (snd p)"

text \<open>Loaders started together: every continuation left over is quiet, and so is the state.\<close>

definition quiet_group :: "state \<Rightarrow> (state \<Rightarrow> state) list \<times> state \<Rightarrow> bool" where
  "quiet_group s p \<longleftrightarrow> (\<forall>k \<in> set (fst p). quiet_rest k) \<and> quiet s (snd p)"

section \<open>Outcomes of rendering, and the shape of the operations\<close>

text \<open>What a row loop leaves in its table: the rows up to the first item whose template throws.\<close>

fun rows_html :: "(val \<Rightarrow> exn + string) \<Rightarrow> val list \<Rightarrow> string" where
  "rows_html row [] = ''''"
| "rows_html row (item # items) =
     (case row item of Inl e \<Rightarrow> '''' | Inr html \<Rightarrow> html @ rows_html row items)"

fun rows_error :: "(val \<Rightarrow> exn + string) \<Rightarrow> val list \<Rightarrow> exn option" where
  "rows_error row [] = None"
| "rows_error row (item # items) =
     (case row item of Inl e \<Rightarrow> Some e | Inr html \<Rightarrow> rows_error row items)"

definition loop_html :: "(val \<Rightarrow> exn + string) \<Rightarrow> val \<Rightarrow> string" where
  "loop_html row v = (case v of JArr items \<Rightarrow> rows_html row items | _ \<Rightarrow> '''')"

definition loop_error :: "(val \<Rightarrow> exn + string) \<Rightarrow> val \<Rightarrow> exn option" where
  "loop_error row v =
     (case v of
        JArr items \<Rightarrow> rows_error row items
      | JUndefined \<Rightarrow> Some (Fault NullAccess)
      | JNull \<Rightarrow> Some (Fault NullAccess)
      | _ \<Rightarrow> Some (Fault NotCallable))"

text \<open>Each renderer of one table is a function of the value alone.\<close>

definition listing_html :: "string \<Rightarrow> (val \<Rightarrow> exn + string) \<Rightarrow> val \<Rightarrow> string" where
  "listing_html placeholder row v =
     (case field v ''length'' of
        Inl e \<Rightarrow> ''''
      | Inr n \<Rightarrow> if n = JNum 0 then placeholder else loop_html row v)"

definition listing_error :: "(val \<Rightarrow> exn + string) \<Rightarrow> val \<Rightarrow> exn option" where
  "listing_error row v =
     (case field v ''length'' of
        Inl e \<Rightarrow> Some e
      | Inr n \<Rightarrow> if n = JNum 0 then None else loop_error row v)"

text \<open>The operations that set the session: they write the token or route the view.\<close>

fun sets_session :: "operation \<Rightarrow> bool" where
  "sets_session Init = True"
| "sets_session (LoginSubmit u p) = True"
| "sets_session LogoutClick = True"
| "sets_session LoadUserDashboard = True"
| "sets_session _ = False"

text \<open>Registration calls \<^verbatim>\<open>fetch\<close> directly, without the token.\<close>

fun registers :: "operation \<Rightarrow> bool" where
  "registers (RegisterSubmit u p r) = True"
| "registers _ = False"



text \<open>The three calls of \<^verbatim>\<open>loadAdminReports\<close> and their outcomes, each call seeing the ones before it.\<close>

definition report_calls :: "state \<Rightarrow> call list" where
  "report_calls s =
     [api_call (token s) ''/requests/overdue/'' no_options,
      api_call (token s) ''/repairs/'' no_options,
      api_call (token s) ''/analytics/usage'' no_options]"

definition report_results :: "env \<Rightarrow> state \<Rightarrow> (exn + val) list" where
  "report_results env s =
     [api_result (server env (sent s) (api_call (token s) ''/requests/overdue/'' no_options)),
      api_result (server env (sent s @ [api_call (token s) ''/requests/overdue/'' no_options])
                    (api_call (token s) ''/repairs/'' no_options)),
      api_result (server env (sent s @ [api_call (token s) ''/requests/overdue/'' no_options,
                                        api_call (token s) ''/repairs/'' no_options])
                    (api_call (token s) ''/analytics/usage'' no_options))]"

text \<open>The markup of a list: the placeholder when it is empty, else one row for each entity.\<close>

definition table :: "string \<Rightarrow> (val \<Rightarrow> exn + string) \<Rightarrow> val list \<Rightarrow> string" where
  "table placeholder row items =
     (if items = [] then placeholder
      else concat (map (\<lambda>item. case row item of Inr html \<Rightarrow> html | Inl e \<Rightarrow> '''') items))"














text \<open>The text of the equipment row from the end of the button's opening tag on.\<close>

definition button_close :: string where
  \<open>button_close = ''>\<newline>                            Request\<newline>                        </button>\<newline>                    </td>\<newline>                </tr>\<newline>            ''\<close>





text \<open>The calendar date, in the form of \<^verbatim>\<open>toISOString\<close>, of the day with number \<open>d\<close>.\<close>

definition date_of_day :: "int \<Rightarrow> string" where
  "date_of_day d =
     (let t = d * msPerDay
      in iso_year (YearFromTime t) @ ''-'' @ pad 2 (digits (nat (MonthFromTime t + 1)))
         @ ''-'' @ pad 2 (digits (nat (DateFromTime t))))"

text \<open>
  One page is shown: exactly one of the three containers is displayed, and the logout
  button with the two dashboards only.
\<close>

definition one_page :: "state \<Rightarrow> bool" where
  "one_page s \<longleftrightarrow>
     view s \<in> set [[''block'', ''none'', ''none'', ''none''],
                    [''none'', ''block'', ''none'', ''block''],
                    [''none'', ''none'', ''block'', ''block'']]"

section \<open>Concrete runs\<close>

text \<open>
  Inputs for evaluating the model: message texts of an engine, a host in UTC, a state
  before login and one after, and servers that give the same answer to every call.
\<close>

definition page_ids :: "string list" where
  "page_ids = [''auth-container'', ''student-dashboard'', ''admin-dashboard'']"

definition engine_text :: "fault \<Rightarrow> string" where
  "engine_text f =
     (case f of
        NullAccess \<Rightarrow> ''Cannot read properties of null''
      | NotCallable \<Rightarrow> ''forEach is not a function''
      | BadJson \<Rightarrow> ''Unexpected end of JSON input''
      | NetworkFailure \<Rightarrow> ''Failed to fetch''
      | InvalidTime \<Rightarrow> ''Invalid time value'')"

text \<open>
  Whether the number a string converts to is at most zero, as an engine answers it.
  The string is trimmed of white space; the empty string is zero; \<^verbatim>\<open>0x\<close>, \<^verbatim>\<open>0o\<close> and
  \<^verbatim>\<open>0b\<close> introduce unsigned hexadecimal, octal and binary digits; otherwise the string
  is \<^verbatim>\<open>Infinity\<close> or a decimal literal with an optional fraction and exponent, after an
  optional sign. Any other string converts to NaN, which is not at most zero. A literal
  with a minus sign converts to a negative number or to \<^verbatim>\<open>-0\<close>; one without converts to
  zero when its digits are all zero and when its value is at most \<^verbatim>\<open>2 ** -1075\<close>, half
  of the least positive double.
\<close>

definition is_space :: "char \<Rightarrow> bool" where
  "is_space c \<longleftrightarrow>
     c \<in> set [CHR '' '', CHR 0x09, CHR 0x0A, CHR 0x0B, CHR 0x0C, CHR 0x0D, CHR 0xA0]"

definition is_digit :: "char \<Rightarrow> bool" where
  "is_digit c \<longleftrightarrow> c \<in> set ''0123456789''"

definition decimal :: "string \<Rightarrow> int" where
  "decimal ds = foldl (\<lambda>a c. 10 * a + (int (of_char c) - 48)) 0 ds"

definition exponent :: "string \<Rightarrow> int option" where
  "exponent str =
     (if str = [] then Some 0
      else if hd str \<noteq> CHR ''e'' \<and> hd str \<noteq> CHR ''E'' then None
      else let t = tl str;
               neg = (t \<noteq> [] \<and> hd t = CHR ''-'');
               ds = (if t \<noteq> [] \<and> (hd t = CHR ''-'' \<or> hd t = CHR ''+'') then tl t else t)
           in if ds = [] \<or> \<not> list_all is_digit ds then None
              else Some (if neg then - decimal ds else decimal ds))"

definition rounds_to_zero :: "int \<Rightarrow> int \<Rightarrow> bool" where
  "rounds_to_zero m k \<longleftrightarrow> m = 0 \<or> (k < 0 \<and> m * 2 ^ 1075 \<le> 10 ^ nat (- k))"

definition radix_digits :: "char \<Rightarrow> string" where
  "radix_digits c =
     (if c \<in> set ''xX'' then ''0123456789abcdefABCDEF''
      else if c \<in> set ''oO'' then ''01234567''
      else if c \<in> set ''bB'' then ''01''
      else '''')"

definition engine_le_zero :: "string \<Rightarrow> bool" where
  "engine_le_zero str =
     (let t = rev (dropWhile is_space (rev (dropWhile is_space str)));
          neg = (t \<noteq> [] \<and> hd t = CHR ''-'');
          u = (if t \<noteq> [] \<and> (hd t = CHR ''-'' \<or> hd t = CHR ''+'') then tl t else t);
          ip = takeWhile is_digit u;
          r = dropWhile is_digit u;
          dot = (r \<noteq> [] \<and> hd r = CHR ''.'');
          fp = (if dot then takeWhile is_digit (tl r) else []);
          ex = exponent (if dot then dropWhile is_digit (tl r) else r)
      in if t = [] then True
         else if 2 < length t \<and> hd t = CHR ''0'' \<and> radix_digits (t ! 1) \<noteq> [] then
           list_all (\<lambda>c. c \<in> set (radix_digits (t ! 1))) (drop 2 t)
           \<and> list_all (\<lambda>c. c = CHR ''0'') (drop 2 t)
         else if u = ''Infinity'' then neg
         else case ex of
                None \<Rightarrow> False
              | Some e \<Rightarrow>
                  (ip \<noteq> [] \<or> fp \<noteq> [])
                  \<and> (neg \<or> rounds_to_zero (decimal (ip @ fp)) (e - int (length fp))))"

definition host :: "(call list \<Rightarrow> call \<Rightarrow> fetch_result) \<Rightarrow> env" where
  "host srv =
     \<lparr>server = srv, fault_text = engine_text, LocalTZA = (\<lambda>t u. 0),
      numeric_le_zero = engine_le_zero,
      panels = [''tab-pending'', ''tab-equipment'', ''tab-reports''],
      arrival = [], race = []\<rparr>"

definition fresh :: state where
  "fresh =
     \<lparr>token = JNull, userRole = JNull, stored_token = None, display = (\<lambda>el. ''''),
      message_text = '''', message_class = '''', innerHTML = (\<lambda>el. ''''),
      tab_active = (\<lambda>t. False), panel_active = (\<lambda>p. False), resets = [], sent = []\<rparr>"

definition signed_in :: state where
  "signed_in = fresh\<lparr>token := JStr ''t1'', userRole := JStr ''student'', stored_token := Some ''t1''\<rparr>"

definition always :: "nat \<Rightarrow> resp_body \<Rightarrow> call list \<Rightarrow> call \<Rightarrow> fetch_result" where
  "always status b history c = Response status b"

definition bad_input :: val where
  "bad_input = JObj [(''detail'', JStr ''bad input'')]"

text \<open>The body of a 422 answer as the API's framework writes it: \<^verbatim>\<open>detail\<close> is a list.\<close>

definition validation_error :: val where
  "validation_error =
     JObj [(''detail'',
            JArr [JObj [(''loc'', JArr [JStr ''body'', JStr ''total_quantity'']),
                        (''msg'', JStr ''none is not an allowed value''),
                        (''type'', JStr ''type_error.none.not_allowed'')]])]"

text \<open>A server that answers by URL, and sample entities.\<close>

definition unauthorised :: val where
  "unauthorised = JObj [(''detail'', JStr ''Could not validate credentials'')]"

definition student :: val where
  "student = JObj [(''username'', JStr ''ann''), (''role'', JStr ''student'')]"

definition not_found :: val where
  "not_found = JObj [(''detail'', JStr ''Not Found'')]"

definition routes :: "(string \<times> fetch_result) list \<Rightarrow> call list \<Rightarrow> call \<Rightarrow> fetch_result" where
  "routes answers_by_url history c =
     (case map_of answers_by_url (fst c) of
        Some r \<Rightarrow> r
      | None \<Rightarrow> Response 404 (Parsed not_found))"

definition showing_old :: state where
  "showing_old = signed_in\<lparr>innerHTML := (\<lambda>el. ''<tr><td>old</td></tr>'')\<rparr>"

definition overdue_request :: val where
  "overdue_request =
     JObj [(''request_id'', JNum 4), (''user_id'', JNum 2), (''equipment_id'', JNum 7),
           (''status'', JStr ''overdue'')]"

definition repair :: val where
  "repair =
     JObj [(''repair_id'', JNum 1), (''equipment_id'', JNum 7),
           (''description'', JStr ''cracked lens''), (''repair_status'', JStr ''complete'')]"

definition usage :: val where
  "usage = JObj [(''equipment_id'', JNum 7), (''name'', JStr ''Camera''), (''request_count'', JNum 3)]"

definition pending_request :: val where
  "pending_request =
     JObj [(''request_id'', JNum 5), (''user_id'', JNum 2), (''equipment_id'', JNum 7),
           (''expected_return_date'', JStr ''2024-05-01'')]"

definition admin_routes :: "(string \<times> fetch_result) list" where
  "admin_routes =
     [(''http://127.0.0.1:8000/requests/overdue/'', Response 200 (Parsed (JArr [overdue_request]))),
      (''http://127.0.0.1:8000/repairs/'', Response 200 (Parsed (JArr [repair]))),
      (''http://127.0.0.1:8000/analytics/usage'', Response 200 (Parsed (JArr [usage]))),
      (''http://127.0.0.1:8000/requests/pending/'', Response 200 (Parsed (JArr [pending_request]))),
      (''http://127.0.0.1:8000/requests/5/reject'', Response 200 (Parsed pending_request))]"

definition sold_out :: val where
  "sold_out =
     JObj [(''equipment_id'', JNum 7), (''name'', JStr ''Camera''), (''category'', JStr ''AV''),
           (''available_quantity'', JNum 0), (''total_quantity'', JNum 2),
           (''status'', JStr ''available'')]"

definition in_stock :: val where
  "in_stock =
     JObj [(''equipment_id'', JNum 8), (''name'', JStr ''Tripod''), (''category'', JStr ''AV''),
           (''available_quantity'', JNum 2), (''total_quantity'', JNum 2),
           (''status'', JStr ''available'')]"

definition reject_call :: call where
  "reject_call =
     (''http://127.0.0.1:8000/requests/5/reject'',
      \<lparr>http_method = Some ''POST'', headers = [(''Authorization'', ''Bearer t1'')], body = None\<rparr>)"

definition pending_call :: call where
  "pending_call =
     (''http://127.0.0.1:8000/requests/pending/'',
      \<lparr>http_method = None, headers = [(''Authorization'', ''Bearer t1'')], body = None\<rparr>)"




text \<open>
  Central European time around the change of 31 March 2024: one hour ahead of UTC
  before 01:00 UTC (03:00 local time), two hours from then on.
\<close>

definition berlin :: "int \<Rightarrow> bool \<Rightarrow> int" where
  "berlin t isUTC =
     (if isUTC then (if t < 1711846800000 then 3600000 else 7200000)
      else (if t < 1711854000000 then 3600000 else 7200000))"

definition berlin_host :: env where
  "berlin_host = (host (always 204 Unparseable))\<lparr>LocalTZA := berlin\<rparr>"

text \<open>A zone five and a half hours ahead of UTC all year.\<close>

definition kolkata_host :: env where
  "kolkata_host = (host (always 204 Unparseable))\<lparr>LocalTZA := (\<lambda>t isUTC. 19800000)\<rparr>"

text \<open>A state at page load with a token saved by an earlier session.\<close>

definition stored_only :: state where
  "stored_only = fresh\<lparr>stored_token := Some ''t1''\<rparr>"

section \<open>The engine of the concrete runs\<close>

text \<open>Some strings as the engine of the concrete runs compares them with zero.\<close>

lemma engine_le_zero_samples:
  "engine_le_zero ''0''" "engine_le_zero ''''" "engine_le_zero '' -2.5e3 ''"
  "engine_le_zero ''0x00''" "\<not> engine_le_zero ''3''" "\<not> engine_le_zero ''many''"
  by code_simp+

section \<open>Frame lemmas\<close>

lemma quiet_refl [simp]: "quiet s s"
  by (simp add: quiet_def)

lemma quiet_trans: "quiet s t \<Longrightarrow> quiet t u \<Longrightarrow> quiet s u"
  unfolding quiet_def by (elim conjE exE) (auto simp: ball_Un)

lemma authorised_api_call: "authorised tok (api_call tok endpoint opts)"
  by (simp add: authorised_def api_call_def Let_def update_conv')

lemma apiFetch_state:
  "snd (apiFetch env endpoint opts s) = s\<lparr>sent := sent s @ [api_call (token s) endpoint opts]\<rparr>"
  by (simp add: apiFetch_def Let_def)

lemma apiFetch_result:
  "fst (apiFetch env endpoint opts s) =
     api_result (server env (sent s) (api_call (token s) endpoint opts))"
  by (simp add: apiFetch_def Let_def)

lemma quiet_apiFetch: "quiet s (snd (apiFetch env endpoint opts s))"
  by (simp add: apiFetch_state quiet_def view_def authorised_api_call)

lemma quiet_showMessage [simp]: "quiet s (showMessage m c s)"
  by (simp add: showMessage_def quiet_def view_def)

lemma quiet_set_innerHTML [simp]: "quiet s (set_innerHTML el html s)"
  by (simp add: set_innerHTML_def quiet_def view_def)

lemma quiet_add_rows: "quiet s (snd (add_rows tbody row items s))"
proof (induction items arbitrary: s)
  case Nil
  show ?case by simp
next
  case (Cons item items)
  show ?case
  proof (cases "row item")
    case (Inl e)
    then show ?thesis by simp
  next
    case (Inr html)
    let ?t = "set_innerHTML tbody (innerHTML s tbody @ html) s"
    have "quiet s ?t" by simp
    moreover have "quiet ?t (snd (add_rows tbody row items ?t))" by (rule Cons.IH)
    ultimately have "quiet s (snd (add_rows tbody row items ?t))" by (rule quiet_trans)
    then show ?thesis using Inr by simp
  qed
qed

lemma quiet_forEach_row: "quiet s (snd (forEach_row v tbody row s))"
  by (cases v) (simp_all add: forEach_row_def quiet_add_rows)

lemma quiet_and_then:
  assumes "quiet s (snd r)" and "\<And>t. quiet t (snd (f t))"
  shows "quiet s (snd (and_then r f))"
proof (cases r)
  case (Pair eo t)
  show ?thesis
  proof (cases eo)
    case None
    with Pair assms(1) assms(2)[of t] show ?thesis
      by (auto simp: and_then_def intro: quiet_trans)
  next
    case (Some e)
    with Pair assms(1) show ?thesis by (simp add: and_then_def)
  qed
qed

lemma quiet_catch: "quiet s (snd r) \<Longrightarrow> quiet s (catch env r)"
  by (cases r; cases "fst r") (auto simp: catch_def intro: quiet_trans [OF _ quiet_showMessage])

lemma quiet_resume:
  assumes "\<And>v t. quiet t (snd (render v t))"
  shows "quiet_rest (resume env render r)"
  unfolding quiet_rest_def resume_def
  by (cases r) (auto intro!: quiet_catch assms)

lemma quiet_forEach_cleared:
  "quiet s (snd (forEach_row v tbody row (set_innerHTML tbody x s)))"
  by (rule quiet_trans [OF quiet_set_innerHTML quiet_forEach_row])

lemma quiet_render_student_equipment: "quiet t (snd (render_student_equipment env v t))"
  by (auto simp: render_student_equipment_def Let_def quiet_forEach_cleared
           intro: quiet_trans [OF quiet_set_innerHTML quiet_set_innerHTML] split: sum.splits)

lemma quiet_render_student_requests: "quiet t (snd (render_student_requests v t))"
  by (auto simp: render_student_requests_def Let_def quiet_forEach_cleared
           intro: quiet_trans [OF quiet_set_innerHTML quiet_set_innerHTML] split: sum.splits)

lemma quiet_render_admin_pending: "quiet t (snd (render_admin_pending v t))"
  by (auto simp: render_admin_pending_def Let_def quiet_forEach_cleared
           intro: quiet_trans [OF quiet_set_innerHTML quiet_set_innerHTML] split: sum.splits)

lemma quiet_render_admin_inventory: "quiet t (snd (render_admin_inventory v t))"
  by (simp add: render_admin_inventory_def quiet_forEach_cleared)

lemma quiet_render_admin_reports: "quiet t (snd (render_admin_reports r t))"
  by (cases r) (auto simp: render_admin_reports_def intro!: quiet_and_then quiet_forEach_cleared)

lemma quiet_loadAdminReports_done: "quiet_rest (loadAdminReports_done env r1 r2 r3)"
  unfolding quiet_rest_def loadAdminReports_done_def
  by (auto intro!: quiet_catch quiet_render_admin_reports split: sum.splits)

lemma quiet_done:
  "quiet_rest (loadStudentEquipment_done env r)"
  "quiet_rest (loadStudentRequests_done env r)"
  "quiet_rest (loadAdminPending_done env r)"
  "quiet_rest (loadAdminInventory_done env r)"
  unfolding loadStudentEquipment_done_def loadStudentRequests_done_def
    loadAdminPending_done_def loadAdminInventory_done_def
  by (rule quiet_resume, rule quiet_render_student_equipment quiet_render_student_requests
        quiet_render_admin_pending quiet_render_admin_inventory)+

lemma set_arrange: "set (arrange ord xs) \<subseteq> set xs"
proof
  fix x assume "x \<in> set (arrange ord xs)"
  then obtain i where "i < length xs" "x = xs ! i"
    unfolding arrange_def by auto
  then show "x \<in> set xs" by simp
qed

lemma quiet_fold:
  "(\<And>k. k \<in> set ks \<Longrightarrow> quiet_rest k) \<Longrightarrow> quiet s (fold (\<lambda>k. k) ks s)"
proof (induction ks arbitrary: s)
  case Nil
  show ?case by simp
next
  case (Cons k ks)
  have "quiet s (k s)" using Cons.prems [of k] by (simp add: quiet_rest_def)
  moreover have "quiet (k s) (fold (\<lambda>k. k) ks (k s))"
    by (rule Cons.IH) (simp add: Cons.prems)
  ultimately have "quiet s (fold (\<lambda>k. k) ks (k s))" by (rule quiet_trans)
  then show ?case by simp
qed

lemma quiet_settle:
  assumes "\<And>k. k \<in> set ks \<Longrightarrow> quiet_rest k"
  shows "quiet s (settle env ks s)"
  unfolding settle_def
proof (rule quiet_fold)
  fix k assume "k \<in> set (arrange (arrival env) ks)"
  with set_arrange have "k \<in> set ks" by (rule subsetD)
  then show "quiet_rest k" by (rule assms)
qed

lemma quiet_start:
  assumes "\<And>r. quiet_rest (k r)"
  shows "quiet_started s (start env endpoint k s)"
  using quiet_apiFetch [of s env endpoint no_options] assms
  by (simp add: start_def quiet_started_def case_prod_beta)

lemma quiet_loadAdminReports_start: "quiet_started s (loadAdminReports_start env s)"
proof -
  let ?p1 = "apiFetch env ''/requests/overdue/'' no_options s"
  let ?p2 = "apiFetch env ''/repairs/'' no_options (snd ?p1)"
  let ?p3 = "apiFetch env ''/analytics/usage'' no_options (snd ?p2)"
  have "quiet s (snd ?p3)"
    by (rule quiet_trans [OF quiet_trans [OF quiet_apiFetch quiet_apiFetch] quiet_apiFetch])
  then show ?thesis
    by (simp add: loadAdminReports_start_def quiet_started_def quiet_loadAdminReports_done
          case_prod_beta)
qed

lemma quiet_starts:
  "quiet_started s (loadStudentEquipment_start env s)"
  "quiet_started s (loadStudentRequests_start env s)"
  "quiet_started s (loadAdminPending_start env s)"
  "quiet_started s (loadAdminInventory_start env s)"
  unfolding loadStudentEquipment_start_def loadStudentRequests_start_def
    loadAdminPending_start_def loadAdminInventory_start_def
  by (rule quiet_start, rule quiet_done)+

lemma quiet_finish: "quiet_started s p \<Longrightarrow> quiet s (finish p)"
  by (cases p) (auto simp: quiet_started_def finish_def quiet_rest_def intro: quiet_trans)

lemma quiet_loaders:
  "quiet s (loadStudentEquipment env s)"
  "quiet s (loadStudentRequests env s)"
  "quiet s (loadAdminPending env s)"
  "quiet s (loadAdminInventory env s)"
  "quiet s (loadAdminReports env s)"
  by (simp_all add: loadStudentEquipment_def loadStudentRequests_def loadAdminPending_def
        loadAdminInventory_def loadAdminReports_def quiet_finish quiet_starts
        quiet_loadAdminReports_start)

lemma quiet_loadStudentData_start: "quiet_group s (loadStudentData_start env s)"
proof -
  obtain k1 s1 where 1: "loadStudentEquipment_start env s = (k1, s1)" by fastforce
  obtain k2 s2 where 2: "loadStudentRequests_start env s1 = (k2, s2)" by fastforce
  have "quiet_rest k1" "quiet s s1" using quiet_starts(1) [of s env] 1
    by (simp_all add: quiet_started_def)
  moreover have "quiet_rest k2" "quiet s1 s2" using quiet_starts(2) [of s1 env] 2
    by (simp_all add: quiet_started_def)
  ultimately show ?thesis using 1 2
    by (auto simp: loadStudentData_start_def quiet_group_def intro: quiet_trans)
qed

lemma quiet_loadAdminData_start: "quiet_group s (loadAdminData_start env s)"
proof -
  obtain k1 s1 where 1: "loadAdminPending_start env s = (k1, s1)" by fastforce
  obtain k2 s2 where 2: "loadAdminInventory_start env s1 = (k2, s2)" by fastforce
  obtain k3 s3 where 3: "loadAdminReports_start env s2 = (k3, s3)" by fastforce
  have "quiet_rest k1" "quiet s s1" using quiet_starts(3) [of s env] 1
    by (simp_all add: quiet_started_def)
  moreover have "quiet_rest k2" "quiet s1 s2" using quiet_starts(4) [of s1 env] 2
    by (simp_all add: quiet_started_def)
  moreover have "quiet_rest k3" "quiet s2 s3" using quiet_loadAdminReports_start [of s2 env] 3
    by (simp_all add: quiet_started_def)
  ultimately show ?thesis using 1 2 3
    by (auto simp: loadAdminData_start_def quiet_group_def intro: quiet_trans)
qed

lemma quiet_settle_group:
  assumes "quiet_group s p" and "\<And>t. quiet t (f t)"
  shows "quiet s (settle env (fst p) (f (snd p)))"
proof -
  have "quiet s (f (snd p))" using assms by (auto simp: quiet_group_def intro: quiet_trans)
  moreover have "quiet (f (snd p)) (settle env (fst p) (f (snd p)))"
    by (rule quiet_settle) (use assms(1) in \<open>simp add: quiet_group_def\<close>)
  ultimately show ?thesis by (rule quiet_trans)
qed

lemma quiet_loadStudentData: "quiet s (loadStudentData env s)"
  using quiet_settle_group [OF quiet_loadStudentData_start, of "\<lambda>t. t" s env env]
  by (simp add: loadStudentData_def case_prod_beta)

lemma quiet_loadAdminData: "quiet s (loadAdminData env s)"
  using quiet_settle_group [OF quiet_loadAdminData_start, of "\<lambda>t. t" s env env]
  by (simp add: loadAdminData_def case_prod_beta)

lemma quiet_mutate:
  assumes "\<And>v t. quiet t (after v t)"
  shows "quiet s (mutate env endpoint opts after s)"
proof (cases "apiFetch env endpoint opts s")
  case (Pair r s1)
  have q: "quiet s s1" using quiet_apiFetch [of s env endpoint opts] Pair by simp
  show ?thesis
  proof (cases r)
    case (Inl e)
    with Pair q show ?thesis
      by (auto simp: mutate_def intro: quiet_trans [OF _ quiet_showMessage])
  next
    case (Inr v)
    with Pair q assms [of s1 v] show ?thesis
      by (auto simp: mutate_def intro: quiet_trans)
  qed
qed

lemma quiet_after_message:
  assumes "\<And>t. quiet t (f t)"
  shows "quiet t (f (showMessage m c t))"
  by (rule quiet_trans [OF quiet_showMessage assms])

section \<open>Properties of the loaders and actions\<close>

lemma set_innerHTML_twice [simp]:
  "set_innerHTML el x (set_innerHTML el y s) = set_innerHTML el x s"
  by (simp add: set_innerHTML_def)

lemma set_innerHTML_same [simp]: "set_innerHTML el (innerHTML s el) s = s"
  by (simp add: set_innerHTML_def)

lemma innerHTML_set_innerHTML [simp]:
  "innerHTML (set_innerHTML el x s) el' = (if el' = el then x else innerHTML s el')"
  by (simp add: set_innerHTML_def)

lemma add_rows_eq:
  "add_rows tbody row items s
     = (rows_error row items, set_innerHTML tbody (innerHTML s tbody @ rows_html row items) s)"
proof (induction items arbitrary: s)
  case Nil
  show ?case by simp
next
  case (Cons item items)
  show ?case by (cases "row item") (simp_all add: Cons.IH)
qed

lemma forEach_row_eq:
  "forEach_row v tbody row (set_innerHTML tbody '''' s)
     = (loop_error row v, set_innerHTML tbody (loop_html row v) s)"
  by (cases v) (simp_all add: forEach_row_def loop_error_def loop_html_def add_rows_eq)

lemma render_student_equipment_eq:
  \<open>render_student_equipment env v s
     = (listing_error (equipment_row env) v,
        set_innerHTML ''equipment-list-tbody''
          (listing_html ''<tr><td colspan="5">No equipment available.</td></tr>''
             (equipment_row env) v) s)\<close>
  by (simp add: render_student_equipment_def Let_def listing_error_def listing_html_def
        forEach_row_eq split: sum.splits)

lemma render_student_requests_eq:
  \<open>render_student_requests v s
     = (listing_error my_request_row v,
        set_innerHTML ''my-requests-tbody''
          (listing_html ''<tr><td colspan="5">You have no requests.</td></tr>''
             my_request_row v) s)\<close>
  by (simp add: render_student_requests_def Let_def listing_error_def listing_html_def
        forEach_row_eq split: sum.splits)

lemma render_admin_pending_eq:
  \<open>render_admin_pending v s
     = (listing_error pending_row v,
        set_innerHTML ''admin-pending-tbody''
          (listing_html ''<tr><td colspan="6">No pending requests.</td></tr>''
             pending_row v) s)\<close>
  by (simp add: render_admin_pending_def Let_def listing_error_def listing_html_def
        forEach_row_eq split: sum.splits)

lemma render_admin_inventory_eq:
  "render_admin_inventory v s
     = (loop_error inventory_row v,
        set_innerHTML ''admin-inventory-tbody'' (loop_html inventory_row v) s)"
  by (simp add: render_admin_inventory_def forEach_row_eq)

lemma quiet_show_cards: "quiet s (show_register_click s)" "quiet s (show_login_click s)"
  by (simp_all add: show_register_click_def show_login_click_def quiet_def view_def)

lemma quiet_student_refresh: "quiet t (loadStudentData env (showMessage m c t))"
  by (rule quiet_after_message) (rule quiet_loadStudentData)

lemma quiet_admin_refresh:
  "quiet t (loadAdminPending env (showMessage m c t))"
  "quiet t (loadAdminInventory env (showMessage m c t))"
  "quiet t (loadAdminReports env (showMessage m c t))"
  by (rule quiet_after_message, rule quiet_loaders)+

lemma quiet_requestItem: "quiet s (requestItem env now i s)"
  unfolding requestItem_def
  by (auto split: sum.splits intro!: quiet_mutate quiet_student_refresh)

lemma quiet_returnItem: "quiet s (returnItem env i s)"
  unfolding returnItem_def by (intro quiet_mutate quiet_student_refresh)

lemma quiet_reportDamage: "quiet s (reportDamage env i d s)"
  unfolding reportDamage_def
  by (auto split: option.splits intro!: quiet_mutate quiet_student_refresh)

lemma quiet_adminApprove: "quiet s (adminApprove env i d s)"
  unfolding adminApprove_def
  by (auto split: option.splits intro!: quiet_mutate quiet_admin_refresh)

lemma quiet_adminReject: "quiet s (adminReject env i s)"
  unfolding adminReject_def by (intro quiet_mutate quiet_admin_refresh)

lemma quiet_adminDeleteItem: "quiet s (adminDeleteItem env i c s)"
  unfolding adminDeleteItem_def
  by (auto intro!: quiet_mutate quiet_admin_refresh)

lemma quiet_adminCompleteRepair: "quiet s (adminCompleteRepair env i s)"
  unfolding adminCompleteRepair_def by (intro quiet_mutate quiet_admin_refresh)

lemma quiet_check_overdue_click: "quiet s (check_overdue_click env s)"
  unfolding check_overdue_click_def
proof (rule quiet_mutate)
  fix v t
  show "quiet t (case field v ''length'' of
                   Inl e \<Rightarrow> showMessage (message env e) ''error'' t
                 | Inr n \<Rightarrow>
                     loadAdminReports env
                       (showMessage (ToString n @ '' item(s) marked as overdue.'') ''success'' t))"
    by (cases "field v ''length''") (simp_all add: quiet_admin_refresh)
qed

lemma quiet_resets: "quiet s (s\<lparr>resets := r\<rparr>)"
  by (simp add: quiet_def view_def)

lemma quiet_add_equipment_submit: "quiet s (add_equipment_submit env n c q s)"
  unfolding add_equipment_submit_def
proof (rule quiet_mutate)
  fix v t
  let ?t1 = "showMessage ''Equipment added.'' ''success'' t"
  obtain k t2 where st: "loadAdminInventory_start env ?t1 = (k, t2)" by fastforce
  let ?t3 = "t2\<lparr>resets := resets t2 @ [''add-equipment-form'']\<rparr>"
  have k: "quiet_rest k" and b: "quiet ?t1 t2"
    using quiet_starts(4) [of ?t1 env] st by (simp_all add: quiet_started_def)
  have a: "quiet t ?t1" by simp
  have c: "quiet t2 ?t3" by (rule quiet_resets)
  have d: "quiet ?t3 (k ?t3)" using k by (simp add: quiet_rest_def)
  have "quiet t (k ?t3)"
    by (rule quiet_trans [OF quiet_trans [OF quiet_trans [OF a b] c] d])
  then show "quiet t (case loadAdminInventory_start env ?t1 of
                        (k, s2) \<Rightarrow> k (s2\<lparr>resets := resets s2 @ [''add-equipment-form'']\<rparr>))"
    using st by simp
qed

lemma quiet_then_load:
  assumes "quiet s t"
  shows "quiet s (loadAdminPending env t)" "quiet s (loadAdminInventory env t)"
    "quiet s (loadAdminReports env t)"
  by (rule quiet_trans [OF assms], rule quiet_loaders)+

lemma quiet_tab_click: "quiet s (tab_click env k s)"
proof -
  have "quiet s (s\<lparr>tab_active := a, panel_active := b\<rparr>)" for a b
    by (simp add: quiet_def view_def)
  then show ?thesis
    by (simp add: tab_click_def Let_def quiet_then_load)
qed

lemma quiet_run:
  assumes "\<not> sets_session op" and "\<not> registers op"
  shows "quiet s (run env op s)"
  using assms
  by (cases op)
     (simp_all add: quiet_show_cards quiet_loadStudentData quiet_loaders quiet_requestItem
        quiet_returnItem quiet_reportDamage quiet_tab_click quiet_loadAdminData
        quiet_adminApprove quiet_adminReject quiet_add_equipment_submit quiet_adminDeleteItem
        quiet_check_overdue_click quiet_adminCompleteRepair)

lemma register_submit_keeps:
  "token (register_submit env u p r s) = token s \<and> view (register_submit env u p r s) = view s
   \<and> userRole (register_submit env u p r s) = userRole s
   \<and> stored_token (register_submit env u p r s) = stored_token s"
  by (simp add: register_submit_def plain_fetch_def showMessage_def show_login_click_def
        view_def Let_def split: fetch_result.splits sum.splits option.splits prod.splits)

lemma mutate_eq:
  "mutate env endpoint opts after s =
     (case api_result (server env (sent s) (api_call (token s) endpoint opts)) of
        Inl e \<Rightarrow> showMessage (message env e) ''error''
                   (s\<lparr>sent := sent s @ [api_call (token s) endpoint opts]\<rparr>)
      | Inr v \<Rightarrow> after v (s\<lparr>sent := sent s @ [api_call (token s) endpoint opts]\<rparr>))"
  by (simp add: mutate_def apiFetch_def Let_def)

lemma mutate_first_call:
  assumes "\<And>v t. quiet t (after v t)"
  shows "\<exists>cs. sent (mutate env endpoint opts after s)
                = sent s @ api_call (token s) endpoint opts # cs"
proof (cases "api_result (server env (sent s) (api_call (token s) endpoint opts))")
  case (Inl e)
  then show ?thesis by (simp add: mutate_eq showMessage_def)
next
  case (Inr v)
  let ?s1 = "s\<lparr>sent := sent s @ [api_call (token s) endpoint opts]\<rparr>"
  obtain cs where "sent (after v ?s1) = sent ?s1 @ cs"
    using assms [of ?s1 v] unfolding quiet_def by blast
  then show ?thesis using Inr by (simp add: mutate_eq)
qed








lemma loadUserDashboard_failed:
  assumes "api_result (server env (sent s) (api_call (token s) ''/users/me/'' no_options)) = Inl e"
  shows "loadUserDashboard env s
           = dashboard_failed env e (s\<lparr>sent := sent s @ [api_call (token s) ''/users/me/'' no_options]\<rparr>)"
  using assms by (simp add: loadUserDashboard_def apiFetch_def Let_def)

lemma dashboard_failed_effect:
  "token (dashboard_failed env e s) = JNull"
  "stored_token (dashboard_failed env e s) = None"
  "view (dashboard_failed env e s) = [''block'', ''none'', ''none'', ''none'']"
  "message_text (dashboard_failed env e s) = message env e"
  "message_class (dashboard_failed env e s) = ''error''"
  by (simp_all add: dashboard_failed_def showPage_def hideAllPages_def showMessage_def
        view_def Let_def)

lemma loadAdminReports_eq:
  "report_results env s = [r1, r2, r3] \<Longrightarrow>
   loadAdminReports env s
     = loadAdminReports_done env r1 r2 r3 (s\<lparr>sent := sent s @ report_calls s\<rparr>)"
  by (simp add: loadAdminReports_def loadAdminReports_start_def finish_def apiFetch_def
        Let_def report_results_def report_calls_def)

lemma set_arrange_eq: "set (arrange ord xs) = set xs"
proof
  show "set (arrange ord xs) \<subseteq> set xs" by (rule set_arrange)
  show "set xs \<subseteq> set (arrange ord xs)"
  proof
    fix x assume "x \<in> set xs"
    then obtain i where i: "i < length xs" "x = xs ! i" by (auto simp: in_set_conv_nth)
    then have "i \<in> set (remdups (filter (\<lambda>i. i < length xs) ord)
                        @ filter (\<lambda>i. i \<notin> set ord) [0..<length xs])"
      by (cases "i \<in> set ord") simp_all
    then show "x \<in> set (arrange ord xs)"
      unfolding arrange_def using i(2) by (metis (no_types, lifting) image_eqI set_map)
  qed
qed

lemma first_rejection_member:
  "\<exists>r \<in> set rs. isl r \<Longrightarrow> Inl (first_rejection rs) \<in> set rs"
proof (induction rs)
  case Nil
  then show ?case by simp
next
  case (Cons r rs)
  then show ?case by (cases r) auto
qed

lemma Promise_all_rejects:
  assumes "isl r1 \<or> isl r2 \<or> isl r3"
  shows "\<exists>e. Promise_all env r1 r2 r3 = Inl e \<and> Inl e \<in> {r1, r2, r3}"
proof -
  have "\<exists>r \<in> set (arrange (race env) [r1, r2, r3]). isl r"
    using assms by (simp add: set_arrange_eq)
  then have "Inl (first_rejection (arrange (race env) [r1, r2, r3]))
               \<in> set (arrange (race env) [r1, r2, r3])"
    by (rule first_rejection_member)
  then have "Inl (first_rejection (arrange (race env) [r1, r2, r3])) \<in> set [r1, r2, r3]"
    by (simp only: set_arrange_eq)
  moreover have "Promise_all env r1 r2 r3 = Inl (first_rejection (arrange (race env) [r1, r2, r3]))"
    using assms by (cases r1; cases r2; cases r3) (simp_all add: Promise_all_def)
  ultimately show ?thesis by simp
qed

lemma Promise_all_fulfils:
  "Promise_all env (Inr a) (Inr b) (Inr c) = Inr (a, b, c)"
  by (simp add: Promise_all_def)

lemma loadAdminReports_rejected:
  assumes "\<exists>r \<in> set (report_results env s). isl r"
  shows "\<exists>e. Inl e \<in> set (report_results env s) \<and>
             loadAdminReports env s
               = s\<lparr>message_text := message env e, message_class := ''error'',
                    sent := sent s @ report_calls s\<rparr>"
proof -
  obtain r1 r2 r3 where rs: "report_results env s = [r1, r2, r3]"
    by (simp add: report_results_def)
  with assms have "isl r1 \<or> isl r2 \<or> isl r3" by simp
  from Promise_all_rejects [OF this] obtain e where
    e: "Promise_all env r1 r2 r3 = Inl e" "Inl e \<in> {r1, r2, r3}"
    by blast
  have "loadAdminReports env s
          = s\<lparr>message_text := message env e, message_class := ''error'',
               sent := sent s @ report_calls s\<rparr>"
    by (simp add: loadAdminReports_eq [OF rs] loadAdminReports_done_def e(1) catch_def
          showMessage_def)
  moreover have "Inl e \<in> set (report_results env s)" using e(2) rs by simp
  ultimately show ?thesis by blast
qed

lemma rows_all:
  assumes "\<forall>item \<in> set items. \<not> isl (row item)"
  shows "rows_error row items = None"
    and "rows_html row items
           = concat (map (\<lambda>item. case row item of Inr html \<Rightarrow> html | Inl e \<Rightarrow> '''') items)"
  using assms by (induction items) (auto split: sum.splits)

lemma loop_all:
  assumes "\<forall>item \<in> set items. \<not> isl (row item)"
  shows "loop_error row (JArr items) = None"
    and "loop_html row (JArr items) = table '''' row items"
  using rows_all [OF assms] by (simp_all add: loop_error_def loop_html_def table_def)


lemma rows_defined:
  "\<not> nullish item \<Longrightarrow> \<not> isl (equipment_row env item)"
  "\<not> nullish item \<Longrightarrow> \<not> isl (my_request_row item)"
  "\<not> nullish item \<Longrightarrow> \<not> isl (pending_row item)"
  "\<not> nullish item \<Longrightarrow> \<not> isl (inventory_row item)"
  "\<not> nullish item \<Longrightarrow> \<not> isl (overdue_row item)"
  "\<not> nullish item \<Longrightarrow> \<not> isl (repair_row item)"
  "\<not> nullish item \<Longrightarrow> \<not> isl (analytics_row item)"
  by (simp_all add: equipment_row_def my_request_row_def pending_row_def inventory_row_def
        overdue_row_def repair_row_def analytics_row_def)

lemma render_admin_reports_all:
  assumes "\<forall>item \<in> set (xs @ ys @ zs). \<not> nullish item"
  shows "render_admin_reports (JArr xs, JArr ys, JArr zs) s
           = (None, s\<lparr>innerHTML := (innerHTML s)
                 (''overdue-tbody'' := table '''' overdue_row xs,
                  ''repairs-tbody'' := table '''' repair_row ys,
                  ''analytics-tbody'' := table '''' analytics_row zs)\<rparr>)"
proof -
  have x: "\<forall>item \<in> set xs. \<not> isl (overdue_row item)"
    and y: "\<forall>item \<in> set ys. \<not> isl (repair_row item)"
    and z: "\<forall>item \<in> set zs. \<not> isl (analytics_row item)"
    using assms by (simp_all add: rows_defined)
  show ?thesis
    by (simp add: render_admin_reports_def forEach_row_eq and_then_def
          loop_all [OF x] loop_all [OF y] loop_all [OF z])
       (simp add: set_innerHTML_def)
qed

lemma rest_sent:
  "sent (catch env r) = sent (snd r)"
  "sent (snd (forEach_row v tbody row s)) = sent s"
  "sent (set_innerHTML el x s) = sent s"
  by (cases r; cases "fst r")
     (auto simp: catch_def showMessage_def add_rows_eq set_innerHTML_def forEach_row_def
        split: val.splits)

lemma render_admin_reports_sent: "sent (snd (render_admin_reports r s)) = sent s"
  by (cases r)
     (simp add: render_admin_reports_def and_then_def forEach_row_eq rest_sent(3)
        split: option.splits)

lemma loadAdminReports_done_sent: "sent (loadAdminReports_done env r1 r2 r3 s) = sent s"
  by (simp add: loadAdminReports_done_def rest_sent render_admin_reports_sent split: sum.splits)


lemma resume_eq:
  assumes "\<And>v s. render v s = (err v, set_innerHTML tbody (html v) s)"
  shows "resume env render r s =
     (case r of
        Inl e \<Rightarrow> showMessage (message env e) ''error'' s
      | Inr v \<Rightarrow> catch env (err v, set_innerHTML tbody (html v) s))"
  by (cases r) (simp_all add: resume_def assms catch_def)

lemma catch_fields:
  "innerHTML (catch env (eo, s)) = innerHTML s" "sent (catch env (eo, s)) = sent s"
  by (cases eo; simp add: catch_def showMessage_def)+



lemma resume_table:
  assumes "\<And>v s. render v s = (err v, set_innerHTML tbody (html v) s)"
  shows "innerHTML (resume env render (Inr v) s) = (innerHTML s)(tbody := html v)"
    and "innerHTML (resume env render (Inl e) s) = innerHTML s"
    and "sent (resume env render r s) = sent s"
  by (cases r; simp add: resume_eq [OF assms] catch_fields set_innerHTML_def showMessage_def)+



lemma done_sent:
  "sent (loadStudentEquipment_done env r s) = sent s"
  "sent (loadStudentRequests_done env r s) = sent s"
  "sent (loadAdminPending_done env r s) = sent s"
  "sent (loadAdminInventory_done env r s) = sent s"
  unfolding loadStudentEquipment_done_def loadStudentRequests_done_def
    loadAdminPending_done_def loadAdminInventory_done_def
  by (rule resume_table(3), rule render_student_equipment_eq render_student_requests_eq
        render_admin_pending_eq render_admin_inventory_eq)+

lemma done_failed:
  "innerHTML (loadStudentEquipment_done env (Inl e) s) = innerHTML s"
  "innerHTML (loadStudentRequests_done env (Inl e) s) = innerHTML s"
  "innerHTML (loadAdminPending_done env (Inl e) s) = innerHTML s"
  "innerHTML (loadAdminInventory_done env (Inl e) s) = innerHTML s"
  unfolding loadStudentEquipment_done_def loadStudentRequests_done_def
    loadAdminPending_done_def loadAdminInventory_done_def
  by (rule resume_table(2), rule render_student_equipment_eq render_student_requests_eq
        render_admin_pending_eq render_admin_inventory_eq)+




lemma start_eq:
  "start env endpoint k s
     = (k (api_result (server env (sent s) (api_call (token s) endpoint no_options))),
        s\<lparr>sent := sent s @ [api_call (token s) endpoint no_options]\<rparr>)"
  by (simp add: start_def apiFetch_def Let_def)

lemma loader_eq:
  "loadStudentEquipment env s
     = loadStudentEquipment_done env
         (api_result (server env (sent s) (api_call (token s) ''/equipment/'' no_options)))
         (s\<lparr>sent := sent s @ [api_call (token s) ''/equipment/'' no_options]\<rparr>)"
  "loadStudentRequests env s
     = loadStudentRequests_done env
         (api_result (server env (sent s) (api_call (token s) ''/requests/my/'' no_options)))
         (s\<lparr>sent := sent s @ [api_call (token s) ''/requests/my/'' no_options]\<rparr>)"
  "loadAdminPending env s
     = loadAdminPending_done env
         (api_result (server env (sent s) (api_call (token s) ''/requests/pending/'' no_options)))
         (s\<lparr>sent := sent s @ [api_call (token s) ''/requests/pending/'' no_options]\<rparr>)"
  "loadAdminInventory env s
     = loadAdminInventory_done env
         (api_result (server env (sent s) (api_call (token s) ''/equipment/'' no_options)))
         (s\<lparr>sent := sent s @ [api_call (token s) ''/equipment/'' no_options]\<rparr>)"
  by (simp_all add: loadStudentEquipment_def loadStudentRequests_def loadAdminPending_def
        loadAdminInventory_def loadStudentEquipment_start_def loadStudentRequests_start_def
        loadAdminPending_start_def loadAdminInventory_start_def start_eq finish_def)

















lemma suffix_last:
  assumes "suffix ys xs" and "ys \<noteq> []"
  shows "last xs = last ys"
  using assms by (auto simp: suffix_def)

lemma not_suffix_after_space: "\<not> suffix ''disabled'' (x @ '' '')"
proof
  assume "suffix ''disabled'' (x @ '' '')"
  then have "last (x @ '' '') = last ''disabled''" by (rule suffix_last) simp
  then show False by simp
qed

lemma arrange_Nil: "arrange [] xs = xs"
  by (simp add: arrange_def map_nth)

lemma reject_sent:
  "sent (run (host (routes admin_routes)) (AdminReject (JNum 5)) showing_old)
     = [reject_call, pending_call]"
  by (simp add: adminReject_def mutate_eq loader_eq done_sent showMessage_def host_def
        routes_def admin_routes_def api_call_def post_def no_options_def API_URL_def Let_def
        api_result_def ok_def json_def showing_old_def signed_in_def fresh_def
        show_int_def digits.simps reject_call_def pending_call_def)


subsection \<open>Errors raised while rendering\<close>







section \<open>Properties of the date arithmetic\<close>

lemma Day_of_day [simp]: "Day (d * msPerDay) = d"
  by (simp add: Day_def msPerDay_def)

lemma Day_plus_days: "Day (t + n * msPerDay) = Day t + n"
  by (simp add: Day_def msPerDay_def)

lemma calendar_of_day:
  "YearFromTime (Day t * msPerDay) = YearFromTime t"
  "MonthFromTime (Day t * msPerDay) = MonthFromTime t"
  "DateFromTime (Day t * msPerDay) = DateFromTime t"
  by (simp_all add: YearFromTime_def MonthFromTime_def DateFromTime_def DayWithinYear_def
        InLeapYear_def)

lemma MonthFromTime_range: "0 \<le> MonthFromTime t \<and> MonthFromTime t \<le> 11"
  by (simp add: MonthFromTime_def Let_def)

lemma MakeDay_same_month:
  "MakeDay (YearFromTime t) (MonthFromTime t) (DateFromTime t + n) = Day t + n"
proof -
  have "MonthFromTime t div 12 = 0" "MonthFromTime t mod 12 = MonthFromTime t"
    using MonthFromTime_range [of t] by simp_all
  then show ?thesis
    by (simp add: MakeDay_def Let_def DateFromTime_def DayWithinYear_def InLeapYear_def)
qed

lemma setDate_plus:
  "setDate env t (getDate env t + n)
     = TimeClip (UTC env (LocalTime env t + n * msPerDay))"
proof -
  have "MakeDate (Day lt + n) (TimeWithinDay lt) = lt + n * msPerDay" for lt
    by (simp add: MakeDate_def Day_def TimeWithinDay_def algebra_simps)
  then show ?thesis
    by (simp add: setDate_def getDate_def Let_def MakeDay_same_month)
qed

lemma digits_chars: "set (digits n) \<subseteq> set ''0123456789''"
proof (induction n rule: digits.induct)
  case (1 n)
  show ?case
  proof (cases "n < 10")
    case True
    then have "''0123456789'' ! n \<in> set ''0123456789''" by (intro nth_mem) simp
    with True show ?thesis by (subst digits.simps) simp
  next
    case False
    have "''0123456789'' ! (n mod 10) \<in> set ''0123456789''" by (intro nth_mem) simp
    with False "1.IH" show ?thesis by (subst digits.simps) simp
  qed
qed

lemma no_T_digits: "CHR ''T'' \<notin> set (pad w (digits n))"
  using digits_chars [of n] by (auto simp: pad_def)

lemma no_T_year: "CHR ''T'' \<notin> set (iso_year y)"
  using no_T_digits by (simp add: iso_year_def)

lemma before_T_toISOString:
  "toISOString (Some t) = Inr str \<Longrightarrow> before_T str = date_of_day (Day t)"
  using no_T_year [of "YearFromTime t"] no_T_digits [of 2 "nat (MonthFromTime t + 1)"]
    no_T_digits [of 2 "nat (DateFromTime t)"]
  by (auto simp: toISOString_def before_T_def date_of_day_def Let_def calendar_of_day
        takeWhile_append)

lemma toISOString_valid: "\<exists>str. toISOString (Some t) = Inr str"
  by (simp add: toISOString_def)

lemma requestItem_dates_eq:
  assumes "\<bar>UTC env (LocalTime env now + 5 * msPerDay)\<bar> \<le> 8640000000000000"
  shows "requestItem_dates env now
           = Inr (date_of_day (Day now),
                  date_of_day (Day (UTC env (LocalTime env now + 5 * msPerDay))))"
proof -
  obtain str where 1: "toISOString (Some now) = Inr str"
    using toISOString_valid by blast
  have 2: "setDate env now (getDate env now + 5)
             = Some (UTC env (LocalTime env now + 5 * msPerDay))"
    using assms by (simp add: setDate_plus TimeClip_def)
  obtain str' where 3: "toISOString (Some (UTC env (LocalTime env now + 5 * msPerDay))) = Inr str'"
    using toISOString_valid by blast
  have "before_T str = date_of_day (Day now)"
    by (rule before_T_toISOString [OF 1])
  moreover have "before_T str' = date_of_day (Day (UTC env (LocalTime env now + 5 * msPerDay)))"
    by (rule before_T_toISOString [OF 3])
  ultimately show ?thesis
    by (simp add: requestItem_dates_def 1 2 3 Let_def)
qed

lemma same_offset_five_days:
  assumes "LocalTZA env (LocalTime env now + 5 * msPerDay) False = LocalTZA env now True"
  shows "Day (UTC env (LocalTime env now + 5 * msPerDay)) = Day now + 5"
proof -
  have "UTC env (LocalTime env now + 5 * msPerDay) = now + 5 * msPerDay"
    using assms by (simp add: UTC_def LocalTime_def)
  then show ?thesis by (simp add: Day_plus_days)
qed

lemma TimeWithinDay_plus_days: "TimeWithinDay (t + n * msPerDay) = TimeWithinDay t"
  by (simp add: TimeWithinDay_def)

lemma sample_instants:
  "UTC (host (always 204 Unparseable)) (LocalTime (host (always 204 Unparseable)) 1674986400000 + 5 * msPerDay)
     = 1675418400000"
  "UTC (host (always 204 Unparseable)) (LocalTime (host (always 204 Unparseable)) 1703894399000 + 5 * msPerDay)
     = 1704326399000"
  "UTC kolkata_host (LocalTime kolkata_host 1675022400000 + 5 * msPerDay) = 1675454400000"
  "UTC berlin_host (LocalTime berlin_host 1711627200000 + 5 * msPerDay) = 1712055600000"
  "UTC berlin_host (LocalTime berlin_host 1711499400000 + 5 * msPerDay) = 1711927800000"
  by (simp_all add: UTC_def LocalTime_def host_def kolkata_host_def berlin_host_def berlin_def
        msPerDay_def)

lemma sample_dates:
  "date_of_day (Day 1674986400000) = ''2023-01-29''"
  "date_of_day (Day 1675418400000) = ''2023-02-03''"
  "date_of_day (Day 1703894399000) = ''2023-12-29''"
  "date_of_day (Day 1704326399000) = ''2024-01-03''"
  "date_of_day (Day 1675022400000) = ''2023-01-29''"
  "date_of_day (Day 1675454400000) = ''2023-02-03''"
  "date_of_day (Day 1711627200000) = ''2024-03-28''"
  "date_of_day (Day 1712055600000) = ''2024-04-02''"
  "date_of_day (Day 1711499400000) = ''2024-03-27''"
  "date_of_day (Day 1711927800000) = ''2024-03-31''"
  by code_simp+

text \<open>
  \<open>YearFromDay d\<close> is the year the language definition asks for: the largest \<open>y\<close> whose
  first day is not after \<open>d\<close>.
\<close>

lemma floor_bounds: "k * (x div k) \<le> x \<and> x < k * (x div k) + k" if "0 < k" for x k :: int
proof -
  have "x = k * (x div k) + x mod k" by simp
  moreover have "0 \<le> x mod k" "x mod k < k" using that by simp_all
  ultimately show ?thesis by linarith
qed

lemma leap_sum_bounds:
  fixes Y a b c :: int
  assumes "4 * a \<le> Y - 1969" "Y - 1969 < 4 * a + 4"
    and "100 * b \<le> Y - 1901" "Y - 1901 < 100 * b + 100"
    and "400 * c \<le> Y - 1601" "Y - 1601 < 400 * c + 400"
  shows "146097 * (Y - 1970) - 506 \<le> 400 * (365 * (Y - 1970) + a - b + c)"
    and "400 * (365 * (Y - 1970) + a - b + c) \<le> 146097 * (Y - 1970) + 589"
  using assms by (simp_all add: algebra_simps)

lemma DayFromYear_bounds:
  "146097 * (Y - 1970) - 506 \<le> 400 * DayFromYear Y"
  "400 * DayFromYear Y \<le> 146097 * (Y - 1970) + 589"
  unfolding DayFromYear_def
  using floor_bounds [of 4 "Y - 1969"] floor_bounds [of 100 "Y - 1901"]
    floor_bounds [of 400 "Y - 1601"]
  by (auto intro: leap_sum_bounds)

lemma YearFromDay_bracket:
  "DayFromYear (YearFromDay d) \<le> d \<and> d < DayFromYear (YearFromDay d + 1)"
proof -
  define q where "q = (d * 400) div 146097"
  have q: "146097 * q \<le> d * 400" "d * 400 < 146097 * q + 146097"
    using floor_bounds [of 146097 "d * 400"] by (simp_all add: q_def)
  have lo: "DayFromYear (1970 + q - 1) \<le> d"
    using DayFromYear_bounds(2) [of "1970 + q - 1"] q by (simp add: algebra_simps)
  have hi: "d < DayFromYear (1970 + q + 2)"
    using DayFromYear_bounds(1) [of "1970 + q + 2"] q by (simp add: algebra_simps)
  have "YearFromDay d =
          (if DayFromYear (1970 + q + 1) \<le> d then 1970 + q + 1
           else if DayFromYear (1970 + q) \<le> d then 1970 + q else 1970 + q - 1)"
    by (simp add: YearFromDay_def Let_def q_def)
  then show ?thesis using lo hi by (auto simp: add.commute add.left_commute)
qed

section \<open>Properties of the router\<close>

lemma view_showPage:
  "view (showPage ''auth-container'' s) = [''block'', ''none'', ''none'', ''none'']"
  "view (showPage ''student-dashboard'' s) = [''none'', ''block'', ''none'', ''block'']"
  "view (showPage ''admin-dashboard'' s) = [''none'', ''none'', ''block'', ''block'']"
  by (simp_all add: view_def showPage_def hideAllPages_def Let_def)

lemma one_page_showPage:
  "one_page (showPage ''auth-container'' s)"
  "one_page (showPage ''student-dashboard'' s)"
  "one_page (showPage ''admin-dashboard'' s)"
  by (simp_all add: one_page_def view_showPage)

lemma showPage_keeps:
  "token (showPage p s) = token s" "userRole (showPage p s) = userRole s"
  "stored_token (showPage p s) = stored_token s" "sent (showPage p s) = sent s"
  by (simp_all add: showPage_def hideAllPages_def Let_def)

lemma loadUserDashboard_ok:
  assumes "api_result (server env (sent s) (api_call (token s) ''/users/me/'' no_options)) = Inr user"
    and "field user ''role'' = Inr role"
  shows "quiet
           (showPage (if role = JStr ''admin'' then ''admin-dashboard'' else ''student-dashboard'')
              (s\<lparr>sent := sent s @ [api_call (token s) ''/users/me/'' no_options],
                  userRole := role\<rparr>))
           (loadUserDashboard env s)"
proof -
  let ?s2 = "s\<lparr>sent := sent s @ [api_call (token s) ''/users/me/'' no_options], userRole := role\<rparr>"
  have m: "quiet t (showMessage ''Login successful!'' ''success'' t)" for t by simp
  show ?thesis
  proof (cases "role = JStr ''admin''")
    case True
    have "quiet (showPage ''admin-dashboard'' ?s2)
            (settle env (fst (loadAdminData_start env (showPage ''admin-dashboard'' ?s2)))
               (showMessage ''Login successful!'' ''success''
                  (snd (loadAdminData_start env (showPage ''admin-dashboard'' ?s2)))))"
      by (rule quiet_settle_group [OF quiet_loadAdminData_start m])
    then show ?thesis
      using assms True by (simp add: loadUserDashboard_def apiFetch_def Let_def case_prod_beta)
  next
    case False
    have "quiet (showPage ''student-dashboard'' ?s2)
            (settle env (fst (loadStudentData_start env (showPage ''student-dashboard'' ?s2)))
               (showMessage ''Login successful!'' ''success''
                  (snd (loadStudentData_start env (showPage ''student-dashboard'' ?s2)))))"
      by (rule quiet_settle_group [OF quiet_loadStudentData_start m])
    then show ?thesis
      using assms False by (simp add: loadUserDashboard_def apiFetch_def Let_def case_prod_beta)
  qed
qed

lemma loadUserDashboard_not_ok:
  assumes "api_result (server env (sent s) (api_call (token s) ''/users/me/'' no_options)) = Inr user"
    and "field user ''role'' = Inl e"
  shows "loadUserDashboard env s
           = dashboard_failed env e (s\<lparr>sent := sent s @ [api_call (token s) ''/users/me/'' no_options]\<rparr>)"
  using assms by (simp add: loadUserDashboard_def apiFetch_def Let_def)

lemma one_page_loadUserDashboard: "one_page (loadUserDashboard env s)"
proof (cases "api_result (server env (sent s) (api_call (token s) ''/users/me/'' no_options))")
  case (Inl e)
  then show ?thesis
    by (simp add: loadUserDashboard_failed dashboard_failed_effect one_page_def)
next
  case (Inr user)
  show ?thesis
  proof (cases "field user ''role''")
    case (Inl e)
    with Inr show ?thesis
      by (simp add: loadUserDashboard_not_ok dashboard_failed_effect one_page_def)
  next
    case role: (Inr role)
    from loadUserDashboard_ok [OF Inr role] show ?thesis
      by (cases "role = JStr ''admin''") (simp_all add: quiet_def view_showPage one_page_def)
  qed
qed

lemma one_page_login_submit:
  assumes "one_page s"
  shows "one_page (login_submit env u p s)"
proof -
  have keep: "one_page (showMessage m c (s\<lparr>sent := x\<rparr>))" for m c x
    using assms by (simp add: one_page_def view_def showMessage_def)
  show ?thesis
    by (simp add: login_submit_def plain_fetch_def Let_def keep one_page_loadUserDashboard
          split: fetch_result.splits sum.splits option.splits)
qed

lemma one_page_run:
  assumes "one_page s"
  shows "one_page (run env op s)"
proof (cases "sets_session op")
  case True
  then show ?thesis
  proof (cases op)
    case Init
    then show ?thesis
      by (simp add: init_def one_page_loadUserDashboard one_page_showPage
            split: option.splits)
  next
    case (LoginSubmit u p)
    then show ?thesis using assms by (simp add: one_page_login_submit)
  next
    case LogoutClick
    then show ?thesis
      by (simp add: logout_click_def Let_def one_page_showPage)
  next
    case LoadUserDashboard
    then show ?thesis by (simp add: one_page_loadUserDashboard)
  qed simp_all
next
  case False
  have "view (run env op s) = view s"
  proof (cases "registers op")
    case True
    then show ?thesis by (cases op) (simp_all add: register_submit_keeps)
  next
    case r: False
    from False r have "quiet s (run env op s)" by (rule quiet_run)
    then show ?thesis by (simp add: quiet_def)
  qed
  with assms show ?thesis by (simp add: one_page_def)
qed

section \<open>The claims\<close>

subsection \<open>The transport wrapper\<close>

text \<open>
  C2, as the code has it. When a response outside 200..299 has a body that parses and
  whose \<^verbatim>\<open>detail\<close> can be read, \<^verbatim>\<open>apiFetch\<close> throws an \<^verbatim>\<open>Error\<close> whose message is the
  string form of \<^verbatim>\<open>detail\<close> if \<^verbatim>\<open>detail\<close> is truthy, and \<^verbatim>\<open>An API error occurred\<close> if it
  is missing or falsy. A non-empty string is its own string form, so a 400 answer
  \<^verbatim>\<open>{detail: "bad input"}\<close> gives the message \<^verbatim>\<open>bad input\<close>.
\<close>

theorem apiFetch_error_message:
  assumes "server env (sent s) (api_call (token s) endpoint opts) = Response status (Parsed errorData)"
    and "\<not> ok status"
    and "field errorData ''detail'' = Inr detail"
  shows "fst (apiFetch env endpoint opts s)
           = Inl (Error (if ToBoolean detail then ToString detail else ''An API error occurred''))"
  using assms by (simp add: apiFetch_def Let_def api_result_def json_def)

theorem apiFetch_error_message_witness:
  "fst (apiFetch (host (always 400 (Parsed bad_input))) ''/requests/'' post signed_in)
     = Inl (Error ''bad input'')"
  using apiFetch_error_message
    [of "host (always 400 (Parsed bad_input))" signed_in "''/requests/''" post 400 bad_input
        "JStr ''bad input''"]
  by (simp add: host_def always_def ok_def bad_input_def)

text \<open>
  C2 as stated fails: a 422 answer whose \<^verbatim>\<open>detail\<close> is a list of error objects gives the
  message \<^verbatim>\<open>[object Object]\<close>, which is not \<^verbatim>\<open>detail\<close>; a \<^verbatim>\<open>detail\<close> that is present but
  empty gives the generic message; and a body that is not JSON gives the parser's error.
\<close>

theorem apiFetch_detail_counterexample:
  "fst (apiFetch (host (always 422 (Parsed validation_error))) ''/equipment/'' post signed_in)
     = Inl (Error ''[object Object]'')
   \<and> fst (apiFetch (host (always 400 (Parsed (JObj [(''detail'', JStr '''')])))) ''/equipment/''
            post signed_in)
     = Inl (Error ''An API error occurred'')
   \<and> fst (apiFetch (host (always 502 Unparseable)) ''/equipment/'' post signed_in)
     = Inl (Fault BadJson)"
  by (simp add: apiFetch_def Let_def api_result_def json_def host_def always_def ok_def
        validation_error_def)

text \<open>
  C3, as the code has it. On a response with status 204 \<^verbatim>\<open>apiFetch\<close> resolves to \<^verbatim>\<open>null\<close>
  whatever the body is, parseable or not; on any other status in 200..299 it gives what
  \<^verbatim>\<open>response.json()\<close> gives: it resolves to the parsed body when the body is JSON, and
  rejects with the parser's error when it is not.
\<close>

theorem apiFetch_success_value:
  assumes "server env (sent s) (api_call (token s) endpoint opts) = Response status b"
    and "ok status"
  shows "fst (apiFetch env endpoint opts s) = (if status = 204 then Inr JNull else json b)
         \<and> (\<forall>v. status \<noteq> 204 \<longrightarrow> b = Parsed v \<longrightarrow> fst (apiFetch env endpoint opts s) = Inr v)
         \<and> (status \<noteq> 204 \<longrightarrow> b = Unparseable \<longrightarrow>
               fst (apiFetch env endpoint opts s) = Inl (Fault BadJson))"
  using assms by (simp add: apiFetch_def Let_def api_result_def json_def)

theorem apiFetch_success_value_witness:
  "fst (apiFetch (host (always 204 Unparseable)) ''/equipment/7'' no_options signed_in) = Inr JNull
   \<and> fst (apiFetch (host (always 200 (Parsed (JArr [])))) ''/equipment/'' no_options signed_in)
       = Inr (JArr [])
   \<and> fst (apiFetch (host (always 201 Unparseable)) ''/requests/3/return'' post signed_in)
       = Inl (Fault BadJson)"
  using apiFetch_success_value
    [of "host (always 204 Unparseable)" signed_in "''/equipment/7''" no_options 204 Unparseable]
    apiFetch_success_value
    [of "host (always 200 (Parsed (JArr [])))" signed_in "''/equipment/''" no_options 200
        "Parsed (JArr [])"]
    apiFetch_success_value
    [of "host (always 201 Unparseable)" signed_in "''/requests/3/return''" post 201 Unparseable]
  by (simp add: host_def always_def ok_def json_def)

text \<open>
  C3 as stated fails: an answer with status 200 whose body is empty or otherwise not
  JSON does not resolve to a parsed body; the call rejects with the parser's error.
\<close>

theorem apiFetch_unparseable_counterexample:
  "fst (apiFetch (host (always 200 Unparseable)) ''/equipment/'' no_options signed_in)
     = Inl (Fault BadJson)"
  by (simp add: apiFetch_def Let_def api_result_def json_def host_def always_def ok_def)

subsection \<open>The view router\<close>

text \<open>
  C8. After \<^verbatim>\<open>showPage\<close> with the id of one of the three page containers, that container
  is displayed and the other two are hidden, and the logout button is displayed exactly
  when the page is not the auth container. Every operation of the script, which calls
  \<^verbatim>\<open>showPage\<close> with these ids only, takes a state that shows one page to a state that
  shows one page.
\<close>

theorem showPage_shows_one_page:
  "(pageId \<in> set page_ids \<longrightarrow>
      (\<forall>p \<in> set page_ids.
         display (showPage pageId s) p = (if p = pageId then ''block'' else ''none''))
      \<and> display (showPage pageId s) ''logout-button''
          = (if pageId = ''auth-container'' then ''none'' else ''block'')
      \<and> one_page (showPage pageId s))
   \<and> (one_page s \<longrightarrow> one_page (run env op s))"
proof -
  have "one_page (showPage pageId s)" if "pageId \<in> set page_ids"
    using that by (auto simp: page_ids_def one_page_showPage)
  then show ?thesis
    by (auto simp: page_ids_def showPage_def hideAllPages_def Let_def one_page_run)
qed

theorem showPage_shows_one_page_witness:
  "display (showPage ''student-dashboard'' fresh) ''student-dashboard'' = ''block''
   \<and> display (showPage ''student-dashboard'' fresh) ''auth-container'' = ''none''
   \<and> display (showPage ''student-dashboard'' fresh) ''admin-dashboard'' = ''none''
   \<and> display (showPage ''student-dashboard'' fresh) ''logout-button'' = ''block''
   \<and> one_page (run (host (always 200 (Parsed student))) (LoginSubmit ''ann'' ''pw'')
                 (showPage ''auth-container'' fresh))"
  using showPage_shows_one_page
    [of "''student-dashboard''" fresh "host (always 200 (Parsed student))"
        "LoginSubmit ''ann'' ''pw''"]
    showPage_shows_one_page
    [of "''auth-container''" "showPage ''auth-container'' fresh"
        "host (always 200 (Parsed student))" "LoginSubmit ''ann'' ''pw''"]
  by (simp add: page_ids_def one_page_showPage)

subsection \<open>Errors and the view\<close>




text \<open>
  C5. \<^verbatim>\<open>adminApprove\<close> with an empty return date changes nothing but the message area,
  which asks for a date: no call is sent. With a date, the first call it sends is the
  \<^verbatim>\<open>POST\<close> to \<^verbatim>\<open>/requests/<id>/approve\<close> whose body is that date as
  \<^verbatim>\<open>expected_return_date\<close>.
\<close>

theorem adminApprove_needs_date:
  "adminApprove env requestId (Some '''') s
     = s\<lparr>message_text := ''Please set a return date.'', message_class := ''error''\<rparr>
   \<and> (d \<noteq> '''' \<longrightarrow>
        take (Suc (length (sent s))) (sent (adminApprove env requestId (Some d) s))
          = sent s @ [api_call (token s) (''/requests/'' @ ToString requestId @ ''/approve'')
                        (post_json (JObj [(''expected_return_date'', JStr d)]))])"
proof -
  have "\<exists>cs. sent (adminApprove env requestId (Some d) s)
               = sent s @ api_call (token s) (''/requests/'' @ ToString requestId @ ''/approve'')
                            (post_json (JObj [(''expected_return_date'', JStr d)])) # cs"
    if "d \<noteq> ''''"
    using that mutate_first_call [OF quiet_admin_refresh(1)]
    by (simp add: adminApprove_def)
  then show ?thesis by (auto simp: adminApprove_def showMessage_def)
qed

theorem adminApprove_needs_date_witness:
  "sent (adminApprove (host (always 204 Unparseable)) (JNum 12) (Some '''') signed_in) = []
   \<and> message_text (adminApprove (host (always 204 Unparseable)) (JNum 12) (Some '''') signed_in)
       = ''Please set a return date.''
   \<and> take 1 (sent (adminApprove (host (always 204 Unparseable)) (JNum 12) (Some ''2024-05-01'')
                 signed_in))
       = [(''http://127.0.0.1:8000/requests/12/approve'',
           \<lparr>http_method = Some ''POST'',
            headers = [(''Authorization'', ''Bearer t1''), (''Content-Type'', ''application/json'')],
            body = Some (JsonText (JObj [(''expected_return_date'', JStr ''2024-05-01'')]))\<rparr>)]"
  using adminApprove_needs_date
    [of "host (always 204 Unparseable)" "JNum 12" signed_in "''2024-05-01''"]
  by (simp add: signed_in_def fresh_def api_call_def post_json_def API_URL_def show_int_def
        digits.simps Let_def)

text \<open>
  C6. \<^verbatim>\<open>loadAdminReports\<close> always sends its three calls, whatever their outcomes. If any
  of them fails, no table changes and the message area shows the error of one of the
  failed calls. If all three give lists of entities, the three tables hold one row for
  each entity of their list.
\<close>

theorem loadAdminReports_all_or_nothing:
  "sent (loadAdminReports env s) = sent s @ report_calls s
   \<and> ((\<exists>r \<in> set (report_results env s). isl r) \<longrightarrow>
        innerHTML (loadAdminReports env s) = innerHTML s
        \<and> message_class (loadAdminReports env s) = ''error''
        \<and> (\<exists>e. Inl e \<in> set (report_results env s)
                \<and> message_text (loadAdminReports env s) = message env e))
   \<and> (report_results env s = [Inr (JArr xs), Inr (JArr ys), Inr (JArr zs)] \<longrightarrow>
        (\<forall>item \<in> set (xs @ ys @ zs). \<not> nullish item) \<longrightarrow>
        innerHTML (loadAdminReports env s)
          = (innerHTML s)
              (''overdue-tbody'' := table '''' overdue_row xs,
               ''repairs-tbody'' := table '''' repair_row ys,
               ''analytics-tbody'' := table '''' analytics_row zs))"
proof (intro conjI impI)
  obtain r1 r2 r3 where rs: "report_results env s = [r1, r2, r3]"
    by (simp add: report_results_def)
  show "sent (loadAdminReports env s) = sent s @ report_calls s"
    by (simp add: loadAdminReports_eq [OF rs] loadAdminReports_done_sent)
next
  assume "\<exists>r \<in> set (report_results env s). isl r"
  from loadAdminReports_rejected [OF this] obtain e where
    e: "Inl e \<in> set (report_results env s)"
      "loadAdminReports env s
         = s\<lparr>message_text := message env e, message_class := ''error'',
              sent := sent s @ report_calls s\<rparr>"
    by blast
  show "innerHTML (loadAdminReports env s) = innerHTML s" by (simp add: e(2))
  show "message_class (loadAdminReports env s) = ''error''" by (simp add: e(2))
  show "\<exists>e. Inl e \<in> set (report_results env s)
            \<and> message_text (loadAdminReports env s) = message env e"
    using e by auto
next
  assume r: "report_results env s = [Inr (JArr xs), Inr (JArr ys), Inr (JArr zs)]"
    and wf: "\<forall>item \<in> set (xs @ ys @ zs). \<not> nullish item"
  show "innerHTML (loadAdminReports env s)
          = (innerHTML s)
              (''overdue-tbody'' := table '''' overdue_row xs,
               ''repairs-tbody'' := table '''' repair_row ys,
               ''analytics-tbody'' := table '''' analytics_row zs)"
    by (simp add: loadAdminReports_eq [OF r] loadAdminReports_done_def Promise_all_fulfils
          render_admin_reports_all [OF wf] catch_def)
qed

theorem loadAdminReports_all_or_nothing_witness:
  "map (innerHTML (loadAdminReports (host (always 500 (Parsed not_found))) showing_old))
       [''overdue-tbody'', ''repairs-tbody'', ''analytics-tbody'']
     = [''<tr><td>old</td></tr>'', ''<tr><td>old</td></tr>'', ''<tr><td>old</td></tr>'']
   \<and> message_class (loadAdminReports (host (always 500 (Parsed not_found))) showing_old) = ''error''
   \<and> length (sent (loadAdminReports (host (always 500 (Parsed not_found))) showing_old)) = 3
   \<and> map (innerHTML (loadAdminReports (host (routes admin_routes)) showing_old))
         [''overdue-tbody'', ''repairs-tbody'', ''analytics-tbody'']
       = [''<tr><td>4</td><td>2</td><td>7</td><td>overdue</td></tr>'',
          table '''' repair_row [repair],
          ''<tr><td>7</td><td>Camera</td><td>3</td></tr>'']"
proof -
  have 1: "\<exists>r \<in> set (report_results (host (always 500 (Parsed not_found))) showing_old). isl r"
    by (simp add: report_results_def host_def always_def api_result_def ok_def json_def
          not_found_def)
  have 2: "report_results (host (routes admin_routes)) showing_old
             = [Inr (JArr [overdue_request]), Inr (JArr [repair]), Inr (JArr [usage])]"
    by (simp add: report_results_def host_def routes_def admin_routes_def api_call_def
          no_options_def API_URL_def Let_def api_result_def ok_def json_def)
  have 3: "\<forall>item \<in> set ([overdue_request] @ [repair] @ [usage]). \<not> nullish item"
    by (simp add: nullish_def overdue_request_def repair_def usage_def)
  have 4: "table '''' overdue_row [overdue_request]
             = ''<tr><td>4</td><td>2</td><td>7</td><td>overdue</td></tr>''"
    by (simp add: table_def overdue_row_def overdue_request_def nullish_def get_def
          show_int_def digits.simps)
  have 5: "table '''' analytics_row [usage] = ''<tr><td>7</td><td>Camera</td><td>3</td></tr>''"
    by (simp add: table_def analytics_row_def usage_def nullish_def get_def
          show_int_def digits.simps)
  show ?thesis
    using loadAdminReports_all_or_nothing
        [of "host (always 500 (Parsed not_found))" showing_old]
      loadAdminReports_all_or_nothing
        [of "host (routes admin_routes)" showing_old "[overdue_request]" "[repair]" "[usage]"]
      1 2 3
    by (simp add: 4 5 report_calls_def showing_old_def signed_in_def fresh_def)
qed

subsection \<open>The token\<close>

text \<open>
  C7, as the code has it. The call \<^verbatim>\<open>apiFetch\<close> sends carries the token in its
  \<^verbatim>\<open>Authorization\<close> header. The operations that set the session are login, logout,
  \<^verbatim>\<open>loadUserDashboard\<close> and \<^verbatim>\<open>init\<close>; every other operation leaves the token as it was,
  and, registration apart, each call it sends is authorised under that token.
\<close>

theorem token_read_and_written:
  "authorised (token s) (api_call (token s) endpoint opts)
   \<and> sent (snd (apiFetch env endpoint opts s)) = sent s @ [api_call (token s) endpoint opts]
   \<and> (\<not> sets_session op \<longrightarrow> token (run env op s) = token s)
   \<and> (\<not> sets_session op \<longrightarrow> \<not> registers op \<longrightarrow>
        (\<forall>c \<in> set (drop (length (sent s)) (sent (run env op s))). authorised (token s) c))"
proof -
  have "token (run env op s) = token s" if "\<not> sets_session op"
  proof (cases "registers op")
    case True
    then show ?thesis by (cases op) (simp_all add: register_submit_keeps)
  next
    case False
    with that have "quiet s (run env op s)" by (rule quiet_run)
    then show ?thesis by (simp add: quiet_def)
  qed
  moreover have "\<forall>c \<in> set (drop (length (sent s)) (sent (run env op s))). authorised (token s) c"
    if "\<not> sets_session op" "\<not> registers op"
  proof -
    from that have "quiet s (run env op s)" by (rule quiet_run)
    then obtain cs where "sent (run env op s) = sent s @ cs" "\<forall>c \<in> set cs. authorised (token s) c"
      unfolding quiet_def by blast
    then show ?thesis by simp
  qed
  ultimately show ?thesis
    by (simp add: authorised_api_call apiFetch_state)
qed

theorem token_read_and_written_witness:
  "token (run (host (routes admin_routes)) (AdminReject (JNum 5)) showing_old) = JStr ''t1''
   \<and> map (\<lambda>c. map_of (headers (snd c)) ''Authorization'')
         (sent (run (host (routes admin_routes)) (AdminReject (JNum 5)) showing_old))
       = [Some ''Bearer t1'', Some ''Bearer t1'']"
  using token_read_and_written
    [of showing_old "''/requests/5/reject''" post "host (routes admin_routes)"
        "AdminReject (JNum 5)"]
  unfolding reject_sent
  by (simp add: reject_call_def pending_call_def showing_old_def signed_in_def fresh_def)

text \<open>
  C7 as stated fails: \<^verbatim>\<open>loadUserDashboard\<close>, which is neither login nor logout, sets the
  token to \<^verbatim>\<open>null\<close> when the role lookup is refused, and \<^verbatim>\<open>init\<close> sets it to the token
  saved by an earlier session.
\<close>

theorem token_cleared_counterexample:
  "token signed_in = JStr ''t1''
   \<and> token (run (host (always 401 (Parsed unauthorised))) LoadUserDashboard signed_in) = JNull
   \<and> token stored_only = JNull
   \<and> token (run (host (always 200 (Parsed student))) Init stored_only) = JStr ''t1''"
proof -
  have "quiet
          (showPage ''student-dashboard''
             (stored_only\<lparr>token := JStr ''t1'',
                sent := [api_call (JStr ''t1'') ''/users/me/'' no_options],
                userRole := JStr ''student''\<rparr>))
          (loadUserDashboard (host (always 200 (Parsed student)))
             (stored_only\<lparr>token := JStr ''t1''\<rparr>))"
    using loadUserDashboard_ok
      [of "host (always 200 (Parsed student))" "stored_only\<lparr>token := JStr ''t1''\<rparr>" student
          "JStr ''student''"]
    by (simp add: host_def always_def api_result_def ok_def json_def student_def stored_only_def
          fresh_def)
  then have "token (loadUserDashboard (host (always 200 (Parsed student)))
                      (stored_only\<lparr>token := JStr ''t1''\<rparr>)) = JStr ''t1''"
    by (simp add: quiet_def showPage_keeps)
  then show ?thesis
    by (simp add: loadUserDashboard_failed dashboard_failed_effect host_def always_def
          api_result_def ok_def json_def unauthorised_def signed_in_def fresh_def init_def
          stored_only_def)
qed

subsection \<open>Rendering the lists\<close>




text \<open>
  C10. For an equipment item whose \<^verbatim>\<open>available_quantity\<close> is a number, the attribute
  written into the Request button is \<^verbatim>\<open>disabled\<close> exactly when the quantity is at most 0
  or the status is not \<^verbatim>\<open>available\<close>, and empty otherwise; the row ends with
  \<^verbatim>\<open>disabled>\<close> and the rest of the button exactly in that case.
\<close>

theorem request_button_disabled:
  assumes "\<not> nullish item" and "get item ''available_quantity'' = JNum q"
  shows "request_button_attr env item
           = (if q \<le> 0 \<or> get item ''status'' \<noteq> JStr ''available'' then ''disabled'' else '''')
         \<and> (case equipment_row env item of
               Inl e \<Rightarrow> False
             | Inr html \<Rightarrow>
                 suffix (''disabled'' @ button_close) html
                   \<longleftrightarrow> (q \<le> 0 \<or> get item ''status'' \<noteq> JStr ''available''))"
proof -
  have a: "request_button_attr env item
             = (if q \<le> 0 \<or> get item ''status'' \<noteq> JStr ''available'' then ''disabled'' else '''')"
    using assms(2) by (simp add: request_button_attr_def le_zero_def)
  obtain x where x: "equipment_row env item
                       = Inr (((x @ '' '') @ request_button_attr env item) @ button_close)"
    using assms(1) by (simp add: equipment_row_def button_close_def)
  have yes: "suffix ''disabled'' ((x @ '' '') @ ''disabled'')"
    by (rule suffixI) (rule refl)
  have no: "\<not> suffix ''disabled'' ((x @ '' '') @ '''')"
    using not_suffix_after_space [of x] by simp
  have "suffix ''disabled'' ((x @ '' '') @ request_button_attr env item)
          \<longleftrightarrow> (q \<le> 0 \<or> get item ''status'' \<noteq> JStr ''available'')"
  proof (cases "q \<le> 0 \<or> get item ''status'' \<noteq> JStr ''available''")
    case True
    then show ?thesis using yes by (simp only: a if_True)
  next
    case False
    then show ?thesis using no by (simp only: a if_False)
  qed
  then have "suffix (''disabled'' @ button_close)
          (((x @ '' '') @ request_button_attr env item) @ button_close)
          \<longleftrightarrow> (q \<le> 0 \<or> get item ''status'' \<noteq> JStr ''available'')"
    by (simp only: same_suffix_suffix)
  with a x show ?thesis by (simp only: sum.case)
qed

theorem request_button_disabled_witness:
  "request_button_attr (host (routes admin_routes)) sold_out = ''disabled''
   \<and> request_button_attr (host (routes admin_routes)) in_stock = ''''"
  using request_button_disabled [of sold_out 0 "host (routes admin_routes)"]
    request_button_disabled [of in_stock 2 "host (routes admin_routes)"]
  by (simp add: nullish_def sold_out_def in_stock_def get_def)

subsection \<open>The dates of a request\<close>

text \<open>
  C1, as the code has it. For every clock reading, \<^verbatim>\<open>borrow_date\<close> is the UTC calendar
  date of the reading. \<^verbatim>\<open>setDate(getDate() + 5)\<close> moves the local calendar date five days
  on, through the ends of months and years, and keeps the local time of day; when the
  instant this names is a valid time, \<^verbatim>\<open>expected_return_date\<close> is its UTC calendar date,
  and the first call of \<^verbatim>\<open>requestItem\<close> carries both dates with the equipment id. When the
  host's offset from UTC is the same at both instants (as in every zone without a clock
  change in those days), \<^verbatim>\<open>expected_return_date\<close> is the calendar date five days after
  \<^verbatim>\<open>borrow_date\<close>.
\<close>

theorem requestItem_dates_five_days:
  assumes "\<bar>UTC env (LocalTime env now + 5 * msPerDay)\<bar> \<le> 8640000000000000"
  shows "requestItem_dates env now
           = Inr (date_of_day (Day now),
                  date_of_day (Day (UTC env (LocalTime env now + 5 * msPerDay))))
         \<and> Day (LocalTime env now + 5 * msPerDay) = Day (LocalTime env now) + 5
         \<and> TimeWithinDay (LocalTime env now + 5 * msPerDay) = TimeWithinDay (LocalTime env now)
         \<and> take 1 (drop (length (sent s)) (sent (requestItem env now equipmentId s)))
             = [api_call (token s) ''/requests/''
                  (post_json
                     (JObj [(''equipment_id'', equipmentId),
                            (''borrow_date'', JStr (date_of_day (Day now))),
                            (''expected_return_date'',
                             JStr (date_of_day
                                     (Day (UTC env (LocalTime env now + 5 * msPerDay)))))]))]
         \<and> (LocalTZA env (LocalTime env now + 5 * msPerDay) False = LocalTZA env now True \<longrightarrow>
              date_of_day (Day (UTC env (LocalTime env now + 5 * msPerDay)))
                = date_of_day (Day now + 5))"
proof -
  let ?r = "date_of_day (Day (UTC env (LocalTime env now + 5 * msPerDay)))"
  have d: "requestItem_dates env now = Inr (date_of_day (Day now), ?r)"
    by (rule requestItem_dates_eq [OF assms])
  have "\<exists>cs. sent (mutate env ''/requests/''
                (post_json (JObj [(''equipment_id'', equipmentId),
                                  (''borrow_date'', JStr (date_of_day (Day now))),
                                  (''expected_return_date'', JStr ?r)]))
                (\<lambda>v s1. loadStudentData env
                           (showMessage ''Request submitted successfully!'' ''success'' s1)) s)
       = sent s @ api_call (token s) ''/requests/''
                    (post_json (JObj [(''equipment_id'', equipmentId),
                                      (''borrow_date'', JStr (date_of_day (Day now))),
                                      (''expected_return_date'', JStr ?r)]))
                  # cs"
    by (rule mutate_first_call) (rule quiet_student_refresh)
  then obtain cs where
    "sent (requestItem env now equipmentId s)
       = sent s @ api_call (token s) ''/requests/''
                    (post_json (JObj [(''equipment_id'', equipmentId),
                                      (''borrow_date'', JStr (date_of_day (Day now))),
                                      (''expected_return_date'', JStr ?r)]))
                  # cs"
    by (auto simp: requestItem_def d)
  with d show ?thesis
    by (simp add: Day_plus_days TimeWithinDay_plus_days same_offset_five_days)
qed

theorem requestItem_dates_five_days_witness:
  "requestItem_dates (host (always 204 Unparseable)) 1674986400000
     = Inr (''2023-01-29'', ''2023-02-03'')
   \<and> requestItem_dates (host (always 204 Unparseable)) 1703894399000
       = Inr (''2023-12-29'', ''2024-01-03'')
   \<and> requestItem_dates kolkata_host 1675022400000 = Inr (''2023-01-29'', ''2023-02-03'')
   \<and> requestItem_dates berlin_host 1711627200000 = Inr (''2024-03-28'', ''2024-04-02'')
   \<and> requestItem_dates berlin_host 1711499400000 = Inr (''2024-03-27'', ''2024-03-31'')
   \<and> take 1 (sent (requestItem (host (always 204 Unparseable)) 1674986400000 (JNum 7) signed_in))
       = [(''http://127.0.0.1:8000/requests/'',
           \<lparr>http_method = Some ''POST'',
            headers = [(''Authorization'', ''Bearer t1''), (''Content-Type'', ''application/json'')],
            body = Some (JsonText (JObj [(''equipment_id'', JNum 7),
                                         (''borrow_date'', JStr ''2023-01-29''),
                                         (''expected_return_date'', JStr ''2023-02-03'')]))\<rparr>)]"
  using requestItem_dates_five_days
      [of "host (always 204 Unparseable)" 1674986400000 signed_in "JNum 7"]
    requestItem_dates_five_days [of "host (always 204 Unparseable)" 1703894399000]
    requestItem_dates_five_days [of kolkata_host 1675022400000]
    requestItem_dates_five_days [of berlin_host 1711627200000]
    requestItem_dates_five_days [of berlin_host 1711499400000]
  unfolding sample_instants sample_dates
  by (simp add: signed_in_def fresh_def api_call_def post_json_def API_URL_def Let_def)

text \<open>
  C1 as stated fails where the clocks change in between: in Berlin at 01:30 local time
  on 27 March 2024 (00:30 UTC) the borrow date is 27 March and the return date is
  31 March, four days later, since 01:30 on 1 April is 23:30 UTC on 31 March.
\<close>

theorem requestItem_dates_counterexample:
  "requestItem_dates berlin_host 1711499400000 = Inr (''2024-03-27'', ''2024-03-31'')"
  by code_simp

end
